theory Spec2Isabelle
  imports Main "HOL-Library.AList"
begin

section \<open>The environment of the script\<close>

text \<open>
  The script \<^verbatim>\<open>scripts/gen_test_files.py\<close> creates a directory, writes nineteen files
  into it and prints a log. Its only state is the file system and the standard output,
  so the model threads a \<open>world\<close> through every call. A path is the list of its components
  below the directory the process runs in; string contents are sequences of bytes (the
  UTF-8 encoding that \<^verbatim>\<open>open(..., 'w', encoding='utf-8')\<close> writes).

  What the model takes from the platform: paths are POSIX paths and text files are written
  without translation of line ends; the file system has directories and regular files
  only; a call of \<^verbatim>\<open>print\<close> never raises; a write either raises when the file is opened
  and changes nothing, or completes. The execution is sequential, and nothing else changes
  the file system during a run.
\<close>

type_synonym path = "string list"

datatype node = File string | Dir

type_synonym filesystem = "(path \<times> node) list"

text \<open>The entry at a path. The empty path is the working directory itself.\<close>

definition node_at :: "filesystem \<Rightarrow> path \<Rightarrow> node option" where
  "node_at fs p = (if p = [] then Some Dir else map_of fs p)"

text \<open>
  Resolving the components \<open>cs\<close> below the directory \<open>pre\<close>: every one of them must be a
  directory. The result is the error of the first component that is not.
\<close>

datatype errno = ENOENT | EEXIST | ENOTDIR | EISDIR | EACCES

fun walk :: "filesystem \<Rightarrow> path \<Rightarrow> string list \<Rightarrow> errno option" where
  "walk fs pre [] = None"
| "walk fs pre (c # cs) =
     (case node_at fs (pre @ [c]) of
        None \<Rightarrow> Some ENOENT
      | Some (File _) \<Rightarrow> Some ENOTDIR
      | Some Dir \<Rightarrow> walk fs (pre @ [c]) cs)"

text \<open>
  Python's exceptions, as far as the script meets them: \<open>OSError\<close> (with its subclasses
  \<open>FileNotFoundError\<close>, \<open>FileExistsError\<close>, \<open>NotADirectoryError\<close>, \<open>IsADirectoryError\<close>,
  \<open>PermissionError\<close>, told apart by the error number) derives from \<open>Exception\<close>;
  \<open>SystemExit\<close>, which \<^verbatim>\<open>sys.exit\<close> raises, does not.
\<close>

datatype exn = OSError errno path | SystemExit nat

fun is_Exception :: "exn \<Rightarrow> bool" where
  "is_Exception (OSError _ _) = True"
| "is_Exception (SystemExit _) = False"

record world =
  files :: filesystem
  denied :: "path \<Rightarrow> bool"
  cwd :: string
  clock :: "nat \<Rightarrow> string"
  ticks :: nat
  stdout :: "string list"
  written :: "path list"

text \<open>
  \<open>denied w p\<close>: the operating system refuses to create or to open for writing the entry
  at \<open>p\<close> (permissions). \<open>clock w k\<close> is the formatted time that the \<open>k\<close>-th reading of
  \<^verbatim>\<open>datetime.now()\<close> gives, \<open>ticks\<close> counts the readings. \<open>stdout\<close> holds one string for
  each call of \<^verbatim>\<open>print\<close>. \<open>written\<close> records the path of every completed write, in order;
  the script never reads it.
\<close>

datatype 'a result = Returns 'a world | Raises exn world

definition bind :: "'a result \<Rightarrow> ('a \<Rightarrow> world \<Rightarrow> 'b result) \<Rightarrow> 'b result" where
  "bind r f = (case r of Returns x w \<Rightarrow> f x w | Raises e w \<Rightarrow> Raises e w)"

text \<open>A block of statements runs them in order and stops at the first that raises.\<close>

fun block :: "(world \<Rightarrow> unit result) list \<Rightarrow> world \<Rightarrow> unit result" where
  "block [] w = Returns () w"
| "block (s # ss) w = bind (s w) (\<lambda>_. block ss)"

text \<open>An expression statement: the value of the call is dropped.\<close>

definition discard :: "(world \<Rightarrow> 'a result) \<Rightarrow> world \<Rightarrow> unit result" where
  "discard f w = bind (f w) (\<lambda>_. Returns ())"

text \<open>The world a call ends in, whether it returned or raised.\<close>

fun final :: "'a result \<Rightarrow> world" where
  "final (Returns _ w) = w"
| "final (Raises _ w) = w"

fun returned :: "'a result \<Rightarrow> bool" where
  "returned (Returns _ _) = True"
| "returned (Raises _ _) = False"

subsection \<open>Strings\<close>

definition digit_char :: "nat \<Rightarrow> char" where
  "digit_char d = ''0123456789abcdef'' ! d"

text \<open>\<^verbatim>\<open>str(n)\<close> of a natural number: its decimal digits.\<close>

function str_nat :: "nat \<Rightarrow> string" where
  "str_nat n = (if n < 10 then [digit_char n] else str_nat (n div 10) @ [digit_char (n mod 10)])"
  by pat_completeness auto
termination
  by (relation "measure id") auto

declare str_nat.simps [simp del]

fun join :: "string \<Rightarrow> string list \<Rightarrow> string" where
  "join sep [] = []"
| "join sep [x] = x"
| "join sep (x # y # ys) = x @ sep @ join sep (y # ys)"

subsection \<open>Paths\<close>

fun split_on :: "char \<Rightarrow> string \<Rightarrow> string list" where
  "split_on c [] = [[]]"
| "split_on c (x # xs) =
     (if x = c then [] # split_on c xs
      else (case split_on c xs of [] \<Rightarrow> [[x]] | y # ys \<Rightarrow> (x # y) # ys))"

text \<open>
  \<^verbatim>\<open>Path(s)\<close>: \<^verbatim>\<open>pathlib\<close> splits the string at the separator and drops empty components
  and the component \<^verbatim>\<open>.\<close>. Every path of the model starts at the working directory, which
  stands for the root as well; \<^verbatim>\<open>..\<close>, drives and symbolic links are not interpreted.
\<close>

definition Path :: "string \<Rightarrow> path" where
  "Path s = filter (\<lambda>c. c \<noteq> [] \<and> c \<noteq> ''.'') (split_on CHR ''/'' s)"

text \<open>\<^verbatim>\<open>str(path)\<close> and \<^verbatim>\<open>path.absolute()\<close>, as they are printed.\<close>

definition str_path :: "path \<Rightarrow> string" where
  "str_path p = (if p = [] then ''.'' else join ''/'' p)"

definition absolute :: "world \<Rightarrow> path \<Rightarrow> string" where
  "absolute w p = (if p = [] then cwd w else cwd w @ ''/'' @ join ''/'' p)"

text \<open>\<^verbatim>\<open>str(e)\<close> of an exception.\<close>

fun errno_num :: "errno \<Rightarrow> nat" where
  "errno_num ENOENT = 2"
| "errno_num EACCES = 13"
| "errno_num EEXIST = 17"
| "errno_num ENOTDIR = 20"
| "errno_num EISDIR = 21"

fun strerror :: "errno \<Rightarrow> string" where
  "strerror ENOENT = ''No such file or directory''"
| "strerror EACCES = ''Permission denied''"
| "strerror EEXIST = ''File exists''"
| "strerror ENOTDIR = ''Not a directory''"
| "strerror EISDIR = ''Is a directory''"

fun str_exn :: "exn \<Rightarrow> string" where
  "str_exn (OSError e p) =
     ''[Errno '' @ str_nat (errno_num e) @ ''] '' @ strerror e @ '': '' @ [CHR 0x27] @ str_path p @ [CHR 0x27]"
| "str_exn (SystemExit n) = str_nat n"

subsection \<open>System calls and library calls\<close>

definition is_dir :: "path \<Rightarrow> world \<Rightarrow> bool" where
  "is_dir p w = (walk (files w) [] (butlast p) = None \<and> node_at (files w) p = Some Dir)"

text \<open>\<^verbatim>\<open>os.mkdir(p)\<close>: the parent must be a directory and \<open>p\<close> must not exist.\<close>

definition os_mkdir :: "path \<Rightarrow> world \<Rightarrow> unit result" where
  "os_mkdir p w =
     (case walk (files w) [] (butlast p) of
        Some e \<Rightarrow> Raises (OSError e p) w
      | None \<Rightarrow>
          (case node_at (files w) p of
             Some _ \<Rightarrow> Raises (OSError EEXIST p) w
           | None \<Rightarrow>
               if denied w p then Raises (OSError EACCES p) w
               else Returns () (w\<lparr>files := AList.update p Dir (files w)\<rparr>)))"

text \<open>
  \<^verbatim>\<open>Path.mkdir(parents=False, exist_ok=...)\<close>, as \<^verbatim>\<open>pathlib\<close> writes it: a missing parent
  is raised again whatever \<open>exist_ok\<close> says; any other error is swallowed only when
  \<open>exist_ok\<close> holds and the path is a directory.
\<close>

definition Path_mkdir :: "path \<Rightarrow> bool \<Rightarrow> world \<Rightarrow> unit result" where
  "Path_mkdir p exist_ok w =
     (case os_mkdir p w of
        Returns u w' \<Rightarrow> Returns u w'
      | Raises e w' \<Rightarrow>
          (case e of
             OSError ENOENT q \<Rightarrow> Raises e w'
           | _ \<Rightarrow> if exist_ok \<and> is_dir p w' then Returns () w' else Raises e w'))"

text \<open>
  \<^verbatim>\<open>with open(p, 'w', encoding='utf-8') as f: f.write(content)\<close>. Opening fails when the
  directory of \<open>p\<close> does not resolve, when \<open>p\<close> is a directory, or when the system refuses;
  otherwise the file holds exactly \<open>content\<close> afterwards, whatever it held before.
\<close>

definition open_write :: "path \<Rightarrow> string \<Rightarrow> world \<Rightarrow> unit result" where
  "open_write p content w =
     (case walk (files w) [] (butlast p) of
        Some e \<Rightarrow> Raises (OSError e p) w
      | None \<Rightarrow>
          (case node_at (files w) p of
             Some Dir \<Rightarrow> Raises (OSError EISDIR p) w
           | _ \<Rightarrow>
               if denied w p then Raises (OSError EACCES p) w
               else Returns () (w\<lparr>files := AList.update p (File content) (files w),
                                    written := written w @ [p]\<rparr>)))"

text \<open>\<^verbatim>\<open>list(p.glob("*"))\<close>: the entries of the directory \<open>p\<close> (none when it is no directory).\<close>

definition glob_star :: "path \<Rightarrow> world \<Rightarrow> path list" where
  "glob_star p w =
     (if is_dir p w then filter (\<lambda>q. q \<noteq> [] \<and> butlast q = p) (map fst (files w)) else [])"

definition print :: "string \<Rightarrow> world \<Rightarrow> unit result" where
  "print s w = Returns () (w\<lparr>stdout := stdout w @ [s]\<rparr>)"

section \<open>The generator\<close>

subsection \<open>The literal contents\<close>

text \<open>The string literals that the source passes to \<^verbatim>\<open>create_file\<close>, one constant each.\<close>

definition content_basic_js :: string where
  \<open>content_basic_js =
     ''function hello() {\<newline>    console.log('Hello, World!');\<newline>}\<newline>''\<close>

definition content_with_copyright_js :: string where
  \<open>content_with_copyright_js =
     ''/**\<newline> * Copyright (c) 2023 Test Company\<newline> * All rights reserved.\<newline> */\<newline>\<newline>function hello() {\<newline>    console.log('Hello, World!');\<newline>}\<newline>''\<close>

definition content_different_copyright_js :: string where
  \<open>content_different_copyright_js =
     ''/* Copyright (c) 2023 Another Company */\<newline>\<newline>function hello() {\<newline>    console.log('Hello, World!');\<newline>}\<newline>''\<close>

definition content_basic_ts :: string where
  \<open>content_basic_ts =
     ''interface User {\<newline>    name: string;\<newline>    age: number;\<newline>}\<newline>\<newline>function greet(user: User): string {\<newline>    return `Hello, ${user.name}!`;\<newline>}\<newline>''\<close>

definition content_with_copyright_ts :: string where
  \<open>content_with_copyright_ts =
     ''/**\<newline> * Copyright (c) 2023 TypeScript Company\<newline> * Created: 2023-01-01 12:00:00\<newline> * Last Updated: 2023-01-15 14:30:00\<newline> */\<newline>\<newline>interface User {\<newline>    name: string;\<newline>    age: number;\<newline>}\<newline>''\<close>

definition content_basic_ahk :: string where
  \<open>content_basic_ahk =
     ''F1::\<newline>    MsgBox, Hello World!\<newline>return\<newline>\<newline>F2::\<newline>    Send, Hello from AutoHotkey!\<newline>return\<newline>''\<close>

definition content_basic_ahk2 :: string where
  \<open>content_basic_ahk2 =
     ''F1:: {\<newline>    MsgBox('Hello World!')\<newline>}\<newline>\<newline>F2:: {\<newline>    Send('Hello from AutoHotkey v2!')\<newline>}\<newline>''\<close>

definition content_with_copyright_ahk :: string where
  \<open>content_with_copyright_ahk =
     ''/*\<newline> * Copyright (c) 2023 AHK Company\<newline> * All rights reserved.\<newline> */\<newline>\<newline>F1::\<newline>    MsgBox, Hello World!\<newline>return\<newline>''\<close>

definition content_basic_py :: string where
  \<open>content_basic_py =
     ''def hello():\<newline>    print('Hello, World!')\<newline>\<newline>if __name__ == '__main__':\<newline>    hello()\<newline>''\<close>

definition content_with_copyright_py :: string where
  \<open>content_with_copyright_py =
     ''# Copyright (c) 2023 Python Company\<newline># All rights reserved.\<newline>\<newline>def hello():\<newline>    print('Hello, World!')\<newline>''\<close>

definition content_basic_cpp :: string where
  \<open>content_basic_cpp =
     ''#include <iostream>\<newline>\<newline>int main() {\<newline>    std::cout << "Hello, World!" << std::endl;\<newline>    return 0;\<newline>}\<newline>''\<close>

definition content_basic_h :: string where
  \<open>content_basic_h =
     ''#ifndef BASIC_H\<newline>#define BASIC_H\<newline>\<newline>class Basic {\<newline>public:\<newline>    void hello();\<newline>};\<newline>\<newline>#endif\<newline>''\<close>

definition content_config_json :: string where
  \<open>content_config_json =
     ''{\<newline>    "name": "test",\<newline>    "version": "1.0.0",\<newline>    "description": "Test configuration"\<newline>}\<newline>''\<close>

definition content_package_json :: string where
  \<open>content_package_json =
     ''{\<newline>    "name": "test-package",\<newline>    "version": "1.0.0",\<newline>    "description": "Test package"\<newline>}\<newline>''\<close>

definition content_basic_html :: string where
  \<open>content_basic_html =
     ''<!DOCTYPE html>\<newline><html>\<newline><head>\<newline>    <title>Test Page</title>\<newline></head>\<newline><body>\<newline>    <h1>Hello World</h1>\<newline></body>\<newline></html>\<newline>''\<close>

definition content_basic_css :: string where
  \<open>content_basic_css =
     ''body {\<newline>    font-family: Arial, sans-serif;\<newline>    margin: 0;\<newline>    padding: 20px;\<newline>}\<newline>\<newline>h1 {\<newline>    color: #333;\<newline>}\<newline>''\<close>

definition content_basic_sh :: string where
  \<open>content_basic_sh =
     ''#!/bin/bash\<newline>\<newline>echo "Hello, World!"\<newline>\<newline>exit 0\<newline>''\<close>

definition readme_content :: string where
  \<open>readme_content =
     ''# Test Files for Copyright Notice Extension\<newline>'' @
     ''\<newline>'' @
     ''This directory contains test files to verify the copyright notice extension works correctly.\<newline>'' @
     ''\<newline>'' @
     ''## File Types Generated\<newline>'' @
     ''\<newline>'' @
     ''### JavaScript/TypeScript\<newline>'' @
     ''- `basic.js` - Basic JS without copyright notice\<newline>'' @
     ''- `with_copyright.js` - JS with existing copyright notice\<newline>'' @
     ''- `different_copyright.js` - JS with different copyright format\<newline>'' @
     ''- `basic.ts` - Basic TypeScript without copyright notice\<newline>'' @
     ''- `with_copyright.ts` - TypeScript with existing copyright and timestamps\<newline>'' @
     ''\<newline>'' @
     ''### AutoHotkey\<newline>'' @
     ''- `basic.ahk` - Basic AutoHotkey without copyright notice\<newline>'' @
     ''- `basic.ahk2` - AutoHotkey v2 without copyright notice\<newline>'' @
     ''- `with_copyright.ahk` - AutoHotkey with existing copyright notice\<newline>'' @
     ''\<newline>'' @
     ''### Python\<newline>'' @
     ''- `basic.py` - Basic Python without copyright notice\<newline>'' @
     ''- `with_copyright.py` - Python with existing copyright notice\<newline>'' @
     ''\<newline>'' @
     ''### C++\<newline>'' @
     ''- `basic.cpp` - Basic C++ without copyright notice\<newline>'' @
     ''- `basic.h` - Basic C++ header without copyright notice\<newline>'' @
     ''\<newline>'' @
     ''### Excluded Files (JSON)\<newline>'' @
     ''- `config.json` - Should be excluded from copyright notices\<newline>'' @
     ''- `package.json` - Should be excluded from copyright notices\<newline>'' @
     ''\<newline>'' @
     ''### Other\<newline>'' @
     ''- `basic.html` - Basic HTML without copyright notice\<newline>'' @
     ''- `basic.css` - Basic CSS without copyright notice\<newline>'' @
     ''- `basic.sh` - Basic shell script without copyright notice\<newline>'' @
     ''\<newline>'' @
     ''## Testing Instructions\<newline>'' @
     ''\<newline>'' @
     ''1. Copy `test_settings.json` to your VS Code settings\<newline>'' @
     ''2. Open each test file in VS Code\<newline>'' @
     ''3. Verify that copyright notices are added to appropriate files\<newline>'' @
     ''4. Verify that JSON files are excluded\<newline>'' @
     ''5. Test the manual command: `Ctrl+Shift+P` '' @ [CHR 0xE2, CHR 0x86, CHR 0x92] @ '' "Apply Copyright Notice"\<newline>'' @
     ''\<newline>'' @
     ''## Expected Behavior\<newline>'' @
     ''\<newline>'' @
     ''- Files without copyright notices should get them added automatically\<newline>'' @
     ''- Files with existing copyright notices should remain unchanged (or get timestamps updated if enabled)\<newline>'' @
     ''- JSON files should be excluded from copyright notices\<newline>'' @
     ''- .ahk2 files should work properly even if VS Code doesn't recognize the language ID\<newline>'' @
     ''\<newline>'' @
     ''## VS Code Settings\<newline>'' @
     ''\<newline>'' @
     ''Use the provided `test_settings.json` file to configure the extension for testing.\<newline>''\<close>

subsection \<open>JSON\<close>

text \<open>
  The values that the settings use, and \<^verbatim>\<open>json.dump(obj, f, indent=4)\<close>: with an indent,
  every item of a list or of a dictionary stands on a line of its own, the items are
  separated by a comma, a key from its value by a colon and a space. Strings are escaped
  as \<^verbatim>\<open>ensure_ascii=True\<close> does for bytes below 128 (the settings hold no other byte).
\<close>

datatype json = JString string | JBool bool | JList "json list" | JDict "(string \<times> json) list"

definition hex4 :: "nat \<Rightarrow> string" where
  "hex4 n = [digit_char (n div 4096 mod 16), digit_char (n div 256 mod 16),
             digit_char (n div 16 mod 16), digit_char (n mod 16)]"

definition escape_char :: "char \<Rightarrow> string" where
  "escape_char c =
     (if c = CHR 0x22 then [CHR 0x5C, CHR 0x22]
      else if c = CHR 0x5C then [CHR 0x5C, CHR 0x5C]
      else if c = CHR 0x0A then [CHR 0x5C, CHR ''n'']
      else if c = CHR 0x0D then [CHR 0x5C, CHR ''r'']
      else if c = CHR 0x09 then [CHR 0x5C, CHR ''t'']
      else if c = CHR 0x08 then [CHR 0x5C, CHR ''b'']
      else if c = CHR 0x0C then [CHR 0x5C, CHR ''f'']
      else if (32::nat) \<le> of_char c \<and> of_char c \<le> (126::nat) then [c]
      else [CHR 0x5C, CHR ''u''] @ hex4 (of_char c))"

definition encode_basestring_ascii :: "string \<Rightarrow> string" where
  "encode_basestring_ascii s = [CHR 0x22] @ concat (map escape_char s) @ [CHR 0x22]"

definition newline_indent :: "nat \<Rightarrow> nat \<Rightarrow> string" where
  "newline_indent indent level = CHR 0x0A # replicate (indent * level) CHR '' ''"

fun iterencode :: "nat \<Rightarrow> nat \<Rightarrow> json \<Rightarrow> string" where
  "iterencode indent level (JString s) = encode_basestring_ascii s"
| "iterencode indent level (JBool b) = (if b then ''true'' else ''false'')"
| "iterencode indent level (JList xs) =
     (if xs = [] then ''[]''
      else ''['' @ newline_indent indent (Suc level)
           @ join ('','' @ newline_indent indent (Suc level))
               (map (iterencode indent (Suc level)) xs)
           @ newline_indent indent level @ '']'')"
| "iterencode indent level (JDict kvs) =
     (if kvs = [] then ''{}''
      else ''{'' @ newline_indent indent (Suc level)
           @ join ('','' @ newline_indent indent (Suc level))
               (map (\<lambda>kv. encode_basestring_ascii (fst kv) @ '': ''
                            @ iterencode indent (Suc level) (snd kv)) kvs)
           @ newline_indent indent level @ ''}'')"

definition json_dumps :: "json \<Rightarrow> nat \<Rightarrow> string" where
  "json_dumps obj indent = iterencode indent 0 obj"

text \<open>
  \<^verbatim>\<open>json.loads\<close>, for the same values: a recursive-descent reader. A dictionary is read as
  the list of its items in the order of the text. (Numbers, \<^verbatim>\<open>null\<close> and the escape
  \<^verbatim>\<open>\u\<close> are not read.) The fuel bounds the number of nested calls; the length of the
  text is enough.
\<close>

definition skip_ws :: "string \<Rightarrow> string" where
  "skip_ws s = dropWhile (\<lambda>c. c = CHR '' '' \<or> c = CHR 0x0A \<or> c = CHR 0x0D \<or> c = CHR 0x09) s"

definition unescape :: "char \<Rightarrow> char option" where
  "unescape e =
     (if e = CHR 0x22 then Some (CHR 0x22)
      else if e = CHR 0x5C then Some (CHR 0x5C)
      else if e = CHR ''/'' then Some (CHR ''/'')
      else if e = CHR ''n'' then Some (CHR 0x0A)
      else if e = CHR ''r'' then Some (CHR 0x0D)
      else if e = CHR ''t'' then Some (CHR 0x09)
      else if e = CHR ''b'' then Some (CHR 0x08)
      else if e = CHR ''f'' then Some (CHR 0x0C)
      else None)"

fun scan_string :: "string \<Rightarrow> (string \<times> string) option" where
  "scan_string [] = None"
| "scan_string (c # cs) =
     (if c = CHR 0x22 then Some ([], cs)
      else if c = CHR 0x5C then
        (case cs of
           [] \<Rightarrow> None
         | e # cs' \<Rightarrow>
             (case unescape e of
                None \<Rightarrow> None
              | Some ch \<Rightarrow>
                  (case scan_string cs' of
                     None \<Rightarrow> None
                   | Some (s, rest) \<Rightarrow> Some (ch # s, rest))))
      else if (of_char c :: nat) < 32 then None
      else (case scan_string cs of
              None \<Rightarrow> None
            | Some (s, rest) \<Rightarrow> Some (c # s, rest)))"

fun scan_value :: "nat \<Rightarrow> string \<Rightarrow> (json \<times> string) option"
  and scan_elements :: "nat \<Rightarrow> string \<Rightarrow> (json list \<times> string) option"
  and scan_members :: "nat \<Rightarrow> string \<Rightarrow> ((string \<times> json) list \<times> string) option"
where
  "scan_value 0 s = None"
| "scan_value (Suc n) s =
     (case skip_ws s of
        [] \<Rightarrow> None
      | c # cs \<Rightarrow>
          if c = CHR 0x22 then
            (case scan_string cs of None \<Rightarrow> None | Some (x, rest) \<Rightarrow> Some (JString x, rest))
          else if c = CHR ''['' then
            (case skip_ws cs of
               [] \<Rightarrow> None
             | d # ds \<Rightarrow>
                 if d = CHR '']'' then Some (JList [], ds)
                 else (case scan_elements n cs of
                         None \<Rightarrow> None
                       | Some (xs, rest) \<Rightarrow> Some (JList xs, rest)))
          else if c = CHR ''{'' then
            (case skip_ws cs of
               [] \<Rightarrow> None
             | d # ds \<Rightarrow>
                 if d = CHR ''}'' then Some (JDict [], ds)
                 else (case scan_members n cs of
                         None \<Rightarrow> None
                       | Some (kvs, rest) \<Rightarrow> Some (JDict kvs, rest)))
          else if take 4 (c # cs) = ''true'' then Some (JBool True, drop 4 (c # cs))
          else if take 5 (c # cs) = ''false'' then Some (JBool False, drop 5 (c # cs))
          else None)"
| "scan_elements 0 s = None"
| "scan_elements (Suc n) s =
     (case scan_value n s of
        None \<Rightarrow> None
      | Some (x, rest) \<Rightarrow>
          (case skip_ws rest of
             [] \<Rightarrow> None
           | d # ds \<Rightarrow>
               if d = CHR '']'' then Some ([x], ds)
               else if d = CHR '','' then
                 (case scan_elements n ds of
                    None \<Rightarrow> None
                  | Some (xs, rest') \<Rightarrow> Some (x # xs, rest'))
               else None))"
| "scan_members 0 s = None"
| "scan_members (Suc n) s =
     (case skip_ws s of
        [] \<Rightarrow> None
      | q # cs \<Rightarrow>
          if q \<noteq> CHR 0x22 then None
          else
            (case scan_string cs of
               None \<Rightarrow> None
             | Some (k, rest) \<Rightarrow>
                 (case skip_ws rest of
                    [] \<Rightarrow> None
                  | colon # rest1 \<Rightarrow>
                      if colon \<noteq> CHR '':'' then None
                      else
                        (case scan_value n rest1 of
                           None \<Rightarrow> None
                         | Some (v, rest2) \<Rightarrow>
                             (case skip_ws rest2 of
                                [] \<Rightarrow> None
                              | d # ds \<Rightarrow>
                                  if d = CHR ''}'' then Some ([(k, v)], ds)
                                  else if d = CHR '','' then
                                    (case scan_members n ds of
                                       None \<Rightarrow> None
                                     | Some (kvs, rest') \<Rightarrow> Some ((k, v) # kvs, rest'))
                                  else None)))))"

definition json_loads :: "string \<Rightarrow> json option" where
  "json_loads s =
     (case scan_value (Suc (length s)) s of
        None \<Rightarrow> None
      | Some (v, rest) \<Rightarrow> if skip_ws rest = [] then Some v else None)"

subsection \<open>The class \<open>TestFileGenerator\<close>\<close>

record generator =
  output_dir :: path

text \<open>
  \<^verbatim>\<open>__init__\<close>: \<^verbatim>\<open>self.output_dir = Path(output_dir); self.output_dir.mkdir(exist_ok=True)\<close>.
\<close>

definition TestFileGenerator :: "string \<Rightarrow> world \<Rightarrow> generator result" where
  "TestFileGenerator output_dir_arg w =
     (let p = Path output_dir_arg
      in bind (Path_mkdir p True w) (\<lambda>_. Returns \<lparr>output_dir = p\<rparr>))"

text \<open>\<^verbatim>\<open>log\<close> reads the clock and prints the message behind the time.\<close>

definition log :: "string \<Rightarrow> world \<Rightarrow> unit result" where
  "log message w =
     (let timestamp = clock w (ticks w)
      in print (''['' @ timestamp @ ''] '' @ message) (w\<lparr>ticks := Suc (ticks w)\<rparr>))"

text \<open>The check mark U+2713 that starts the messages about created files, in UTF-8.\<close>

definition check_mark :: string where
  "check_mark = [CHR 0xE2, CHR 0x9C, CHR 0x93]"

text \<open>
  \<^verbatim>\<open>create_file\<close>. Every file name in the source is a single component, so
  \<^verbatim>\<open>self.output_dir / filename\<close> appends it. All contents passed are ASCII, where the
  number of characters that the message reports is the number of bytes.
\<close>

definition create_file :: "generator \<Rightarrow> string \<Rightarrow> string \<Rightarrow> string \<Rightarrow> world \<Rightarrow> path result" where
  "create_file g filename content description w =
     (let filepath = output_dir g @ [filename]
      in bind (open_write filepath content w) (\<lambda>_ w1.
         bind (log (check_mark @ '' Created '' @ filename @ '' ('' @ str_nat (length content)
                    @ '' chars) - '' @ description) w1) (\<lambda>_.
         Returns filepath)))"

definition generate_js_files :: "generator \<Rightarrow> world \<Rightarrow> unit result" where
  "generate_js_files g = block
     [log ''Generating JavaScript test files...'',
      discard (create_file g ''basic.js'' content_basic_js
        ''Basic JS without copyright notice''),
      discard (create_file g ''with_copyright.js'' content_with_copyright_js
        ''JS with existing copyright notice''),
      discard (create_file g ''different_copyright.js'' content_different_copyright_js
        ''JS with different copyright format'')]"

definition generate_ts_files :: "generator \<Rightarrow> world \<Rightarrow> unit result" where
  "generate_ts_files g = block
     [log ''Generating TypeScript test files...'',
      discard (create_file g ''basic.ts'' content_basic_ts
        ''Basic TypeScript without copyright notice''),
      discard (create_file g ''with_copyright.ts'' content_with_copyright_ts
        ''TypeScript with existing copyright and timestamps'')]"

definition generate_ahk_files :: "generator \<Rightarrow> world \<Rightarrow> unit result" where
  "generate_ahk_files g = block
     [log ''Generating AutoHotkey test files...'',
      discard (create_file g ''basic.ahk'' content_basic_ahk
        ''Basic AutoHotkey without copyright notice''),
      discard (create_file g ''basic.ahk2'' content_basic_ahk2
        ''AutoHotkey v2 without copyright notice''),
      discard (create_file g ''with_copyright.ahk'' content_with_copyright_ahk
        ''AutoHotkey with existing copyright notice'')]"

definition generate_py_files :: "generator \<Rightarrow> world \<Rightarrow> unit result" where
  "generate_py_files g = block
     [log ''Generating Python test files...'',
      discard (create_file g ''basic.py'' content_basic_py
        ''Basic Python without copyright notice''),
      discard (create_file g ''with_copyright.py'' content_with_copyright_py
        ''Python with existing copyright notice'')]"

definition generate_cpp_files :: "generator \<Rightarrow> world \<Rightarrow> unit result" where
  "generate_cpp_files g = block
     [log ''Generating C++ test files...'',
      discard (create_file g ''basic.cpp'' content_basic_cpp
        ''Basic C++ without copyright notice''),
      discard (create_file g ''basic.h'' content_basic_h
        ''Basic C++ header without copyright notice'')]"

definition generate_json_files :: "generator \<Rightarrow> world \<Rightarrow> unit result" where
  "generate_json_files g = block
     [log ''Generating JSON files (should be excluded)...'',
      discard (create_file g ''config.json'' content_config_json
        ''JSON config file (should be excluded)''),
      discard (create_file g ''package.json'' content_package_json
        ''JSON package file (should be excluded)'')]"

definition generate_mixed_files :: "generator \<Rightarrow> world \<Rightarrow> unit result" where
  "generate_mixed_files g = block
     [log ''Generating mixed content files...'',
      discard (create_file g ''basic.html'' content_basic_html
        ''Basic HTML without copyright notice''),
      discard (create_file g ''basic.css'' content_basic_css
        ''Basic CSS without copyright notice''),
      discard (create_file g ''basic.sh'' content_basic_sh
        ''Basic shell script without copyright notice'')]"

definition settings :: json where
  "settings = JDict
     [(''copyright-notice.fileExtensions'',
         JList [JString ''.js'', JString ''.jsx'', JString ''.ts'', JString ''.tsx'',
                JString ''.py'', JString ''.cpp'', JString ''.h'', JString ''.ahk'',
                JString ''.ahk2'']),
      (''copyright-notice.excludedFiles'',
         JList [JString ''*.json'', JString ''*.config.js'', JString ''package.json'',
                JString ''tsconfig.json'']),
      (''copyright-notice.template'',
         JString ''/**\<newline> * Copyright (c) {year} Test Company\<newline> * All rights reserved.\<newline> */\<newline>\<newline>''),
      (''copyright-notice.includeTimestamp'', JBool True),
      (''copyright-notice.timestampFormat'', JString ''YYYY-MM-DD HH:mm:ss''),
      (''copyright-notice.includeUpdateTime'', JBool True),
      (''copyright-notice.updateTimeFormat'', JString ''YYYY-MM-DD HH:mm:ss'')]"

definition generate_vscode_settings :: "generator \<Rightarrow> world \<Rightarrow> unit result" where
  "generate_vscode_settings g = block
     [log ''Generating VS Code settings...'',
      (let settings_path = output_dir g @ [''test_settings.json'']
       in open_write settings_path (json_dumps settings 4)),
      log (check_mark @ '' Created test_settings.json - VS Code settings for testing'')]"

definition generate_readme :: "generator \<Rightarrow> world \<Rightarrow> unit result" where
  "generate_readme g = block
     [log ''Generating test README...'',
      (let readme_path = output_dir g @ [''README.md'']
       in open_write readme_path readme_content),
      log (check_mark @ '' Created README.md - Testing instructions'')]"

text \<open>The statements inside \<^verbatim>\<open>try\<close> in \<^verbatim>\<open>generate_all\<close>.\<close>

definition try_body :: "generator \<Rightarrow> world \<Rightarrow> unit result" where
  "try_body g = block
     [generate_js_files g, print '''',
      generate_ts_files g, print '''',
      generate_ahk_files g, print '''',
      generate_py_files g, print '''',
      generate_cpp_files g, print '''',
      generate_json_files g, print '''',
      generate_mixed_files g, print '''',
      generate_vscode_settings g, print '''',
      generate_readme g, print '''',
      (\<lambda>w. let file_count = length (glob_star (output_dir g) w)
            in block
              [log ''=== Test file generation completed ==='',
               log (''Generated '' @ str_nat file_count @ '' files in ''
                    @ str_path (output_dir g)),
               log ''Use these files to test the copyright notice extension!''] w)]"

text \<open>
  \<^verbatim>\<open>generate_all\<close>: \<^verbatim>\<open>except Exception as e\<close> catches what derives from \<open>Exception\<close>,
  logs it and makes the call return \<open>False\<close>.
\<close>

definition generate_all :: "generator \<Rightarrow> world \<Rightarrow> bool result" where
  "generate_all g w =
     bind (block
       [log ''=== Starting Test File Generation ==='',
        (\<lambda>w. log (''Output directory: '' @ absolute w (output_dir g)) w),
        print ''''] w) (\<lambda>_ w1.
     case try_body g w1 of
       Returns _ w2 \<Rightarrow> Returns True w2
     | Raises e w2 \<Rightarrow>
         if is_Exception e then
           bind (log (''ERROR: Failed to generate test files: '' @ str_exn e) w2) (\<lambda>_.
           Returns False)
         else Raises e w2)"

text \<open>
  \<^verbatim>\<open>main\<close>, with \<^verbatim>\<open>sys.argv\<close> as its argument. The constructor is called outside every
  \<^verbatim>\<open>try\<close>; \<^verbatim>\<open>sys.exit(1)\<close> raises \<open>SystemExit 1\<close>.
\<close>

definition main :: "string list \<Rightarrow> world \<Rightarrow> unit result" where
  "main argv w =
     (let output_dir_arg = (if length argv > 1 then argv ! 1 else ''test_files'')
      in bind (TestFileGenerator output_dir_arg w) (\<lambda>generator w1.
         bind (generate_all generator w1) (\<lambda>success w2.
           if success then
             block
               [(\<lambda>w. print (CHR 0x0A # ''Test files generated successfully in: ''
                             @ absolute w (output_dir generator)) w),
                print ''You can now use these files to test the copyright notice extension!''] w2
           else
             block
               [print (CHR 0x0A # ''Failed to generate test files.''),
                (\<lambda>w. Raises (SystemExit 1) w)] w2)))"

text \<open>
  The exit status of the process that runs \<^verbatim>\<open>main()\<close> as the script does: 0 when \<open>main\<close>
  returns, the code of a \<open>SystemExit\<close>, and 1 with a traceback for any other exception
  that nothing caught.
\<close>

fun exit_status :: "unit result \<Rightarrow> nat" where
  "exit_status (Returns _ _) = 0"
| "exit_status (Raises (SystemExit n) _) = n"
| "exit_status (Raises (OSError _ _) _) = 1"

section \<open>Notions for the properties\<close>

text \<open>The write of \<open>content\<close> to \<open>p\<close> does not raise in \<open>w\<close> (the content plays no role).\<close>

definition can_write :: "world \<Rightarrow> path \<Rightarrow> bool" where
  "can_write w p = returned (open_write p [] w)"

text \<open>The world after a completed write.\<close>

definition wrote :: "path \<Rightarrow> string \<Rightarrow> world \<Rightarrow> world" where
  "wrote p content w =
     w\<lparr>files := AList.update p (File content) (files w), written := written w @ [p]\<rparr>"

text \<open>
  The files that the script writes, in the order of the source: the name and the content
  of every call of \<open>create_file\<close>, then the settings and the README.
\<close>

definition fixtures :: "(string \<times> string) list" where
  "fixtures =
     [(''basic.js'', content_basic_js),
      (''with_copyright.js'', content_with_copyright_js),
      (''different_copyright.js'', content_different_copyright_js),
      (''basic.ts'', content_basic_ts),
      (''with_copyright.ts'', content_with_copyright_ts),
      (''basic.ahk'', content_basic_ahk),
      (''basic.ahk2'', content_basic_ahk2),
      (''with_copyright.ahk'', content_with_copyright_ahk),
      (''basic.py'', content_basic_py),
      (''with_copyright.py'', content_with_copyright_py),
      (''basic.cpp'', content_basic_cpp),
      (''basic.h'', content_basic_h),
      (''config.json'', content_config_json),
      (''package.json'', content_package_json),
      (''basic.html'', content_basic_html),
      (''basic.css'', content_basic_css),
      (''basic.sh'', content_basic_sh),
      (''test_settings.json'', json_dumps settings 4),
      (''README.md'', readme_content)]"

definition fixed_filenames :: "string list" where
  "fixed_filenames =
     [''basic.js'', ''with_copyright.js'', ''different_copyright.js'',
      ''basic.ts'', ''with_copyright.ts'',
      ''basic.ahk'', ''basic.ahk2'', ''with_copyright.ahk'',
      ''basic.py'', ''with_copyright.py'',
      ''basic.cpp'', ''basic.h'',
      ''config.json'', ''package.json'',
      ''basic.html'', ''basic.css'', ''basic.sh'',
      ''test_settings.json'', ''README.md'']"

text \<open>The writes alone, without the log: what the run does to the file system.\<close>

definition write_fixtures :: "path \<Rightarrow> (string \<times> string) list \<Rightarrow> world \<Rightarrow> unit result" where
  "write_fixtures out cat = block (map (\<lambda>nc. open_write (out @ [fst nc]) (snd nc)) cat)"

text \<open>Two worlds with the same file system, and two results that agree up to the log.\<close>

definition same_fs :: "world \<Rightarrow> world \<Rightarrow> bool" where
  "same_fs w v = (files w = files v \<and> denied w = denied v \<and> written w = written v)"

fun exn_of :: "'a result \<Rightarrow> exn option" where
  "exn_of (Returns _ _) = None"
| "exn_of (Raises e _) = Some e"

definition sim :: "'a result \<Rightarrow> 'b result \<Rightarrow> bool" where
  "sim r r' = (exn_of r = exn_of r' \<and> same_fs (final r) (final r'))"

definition simulates :: "(world \<Rightarrow> 'a result) \<Rightarrow> (world \<Rightarrow> 'b result) \<Rightarrow> bool" where
  "simulates s a = (\<forall>w v. same_fs w v \<longrightarrow> sim (s w) (a v))"

text \<open>The entries of a directory whose names are not among the given ones.\<close>

definition other_entries :: "path \<Rightarrow> string list \<Rightarrow> world \<Rightarrow> path list" where
  "other_entries out names w = filter (\<lambda>q. q \<notin> set (map (\<lambda>n. out @ [n]) names)) (glob_star out w)"

text \<open>
  The part of a list of files that a run completes: the files before the first one that
  cannot be written. \<open>write_files\<close> is what writing a list of files does to the file system.
\<close>

definition completed :: "path \<Rightarrow> (string \<times> string) list \<Rightarrow> world \<Rightarrow> (string \<times> string) list" where
  "completed out cat w = takeWhile (\<lambda>nc. can_write w (out @ [fst nc])) cat"

definition write_files :: "path \<Rightarrow> (string \<times> string) list \<Rightarrow> filesystem \<Rightarrow> filesystem" where
  "write_files out cat fs = fold (\<lambda>nc. AList.update (out @ [fst nc]) (File (snd nc))) cat fs"

definition paths_of :: "path \<Rightarrow> (string \<times> string) list \<Rightarrow> path list" where
  "paths_of out cat = map (\<lambda>nc. out @ [fst nc]) cat"

definition child_of :: "path \<Rightarrow> path \<Rightarrow> bool" where
  "child_of out q = (q \<noteq> [] \<and> butlast q = out)"

text \<open>
  The parts of \<open>generate_all\<close>, named: the statements of \<open>try_body\<close> before the count, the
  count and the three lines after it, the world after the opening lines of the log, and
  the world after the line that reports an exception.
\<close>

definition writers :: "generator \<Rightarrow> (world \<Rightarrow> unit result) list" where
  "writers g =
     [generate_js_files g, print '''',
      generate_ts_files g, print '''',
      generate_ahk_files g, print '''',
      generate_py_files g, print '''',
      generate_cpp_files g, print '''',
      generate_json_files g, print '''',
      generate_mixed_files g, print '''',
      generate_vscode_settings g, print '''',
      generate_readme g, print '''']"

definition summary :: "generator \<Rightarrow> world \<Rightarrow> unit result" where
  "summary g = (\<lambda>w. let file_count = length (glob_star (output_dir g) w)
            in block
              [log ''=== Test file generation completed ==='',
               log (''Generated '' @ str_nat file_count @ '' files in ''
                    @ str_path (output_dir g)),
               log ''Use these files to test the copyright notice extension!''] w)"

definition started :: "generator \<Rightarrow> world \<Rightarrow> world" where
  "started g w =
     w\<lparr>ticks := Suc (Suc (ticks w)),
       stdout := stdout w @
         [''['' @ clock w (ticks w) @ ''] === Starting Test File Generation ==='',
          ''['' @ clock w (Suc (ticks w)) @ ''] Output directory: '' @ absolute w (output_dir g),
          '''']\<rparr>"

definition failed :: "exn \<Rightarrow> world \<Rightarrow> world" where
  "failed e w =
     w\<lparr>ticks := Suc (ticks w),
       stdout := stdout w @
         [''['' @ clock w (ticks w) @ ''] ERROR: Failed to generate test files: '' @ str_exn e]\<rparr>"

text \<open>The argument of the constructor in \<open>main\<close>.\<close>

definition output_dir_argument :: "string list \<Rightarrow> string" where
  "output_dir_argument argv = (if length argv > 1 then argv ! 1 else ''test_files'')"

text \<open>Reading a file back as JSON, and the items of a dictionary.\<close>

definition read_json :: "world \<Rightarrow> path \<Rightarrow> json option" where
  "read_json w p = (case node_at (files w) p of Some (File text) \<Rightarrow> json_loads text | _ \<Rightarrow> None)"

fun items :: "json \<Rightarrow> (string \<times> json) list" where
  "items (JDict kvs) = kvs"
| "items _ = []"

text \<open>The text that \<^verbatim>\<open>json.dump(settings, f, indent=4)\<close> writes, line by line.\<close>

definition settings_text :: string where
  \<open>settings_text =
     ''{\<newline>'' @
     ''    "copyright-notice.fileExtensions": [\<newline>'' @
     ''        ".js",\<newline>'' @
     ''        ".jsx",\<newline>'' @
     ''        ".ts",\<newline>'' @
     ''        ".tsx",\<newline>'' @
     ''        ".py",\<newline>'' @
     ''        ".cpp",\<newline>'' @
     ''        ".h",\<newline>'' @
     ''        ".ahk",\<newline>'' @
     ''        ".ahk2"\<newline>'' @
     ''    ],\<newline>'' @
     ''    "copyright-notice.excludedFiles": [\<newline>'' @
     ''        "*.json",\<newline>'' @
     ''        "*.config.js",\<newline>'' @
     ''        "package.json",\<newline>'' @
     ''        "tsconfig.json"\<newline>'' @
     ''    ],\<newline>'' @
     ''    "copyright-notice.template": "/**'' @ [CHR 0x5C] @ ''n * Copyright (c) {year} Test Company'' @ [CHR 0x5C] @ ''n * All rights reserved.'' @ [CHR 0x5C] @ ''n */'' @ [CHR 0x5C] @ ''n'' @ [CHR 0x5C] @ ''n",\<newline>'' @
     ''    "copyright-notice.includeTimestamp": true,\<newline>'' @
     ''    "copyright-notice.timestampFormat": "YYYY-MM-DD HH:mm:ss",\<newline>'' @
     ''    "copyright-notice.includeUpdateTime": true,\<newline>'' @
     ''    "copyright-notice.updateTimeFormat": "YYYY-MM-DD HH:mm:ss"\<newline>'' @
     ''}''\<close>

text \<open>
  A world for examples: the given file system, nothing refused, nothing printed yet.
\<close>

definition quiet_world :: "filesystem \<Rightarrow> world" where
  "quiet_world fs =
     \<lparr>files = fs, denied = (\<lambda>_. False), cwd = ''/home/user/project'',
      clock = (\<lambda>_. ''2024-01-01 12:00:00''), ticks = 0, stdout = [], written = []\<rparr>"

section \<open>Basic facts\<close>

lemma bind_Returns [simp]: "bind (Returns x w) f = f x w"
  by (simp add: bind_def)

lemma bind_Raises [simp]: "bind (Raises e w) f = Raises e w"
  by (simp add: bind_def)

lemma result_cases_final:
  "r = Returns (case r of Returns x _ \<Rightarrow> x | Raises _ _ \<Rightarrow> undefined) (final r) \<or> (\<exists>e. r = Raises e (final r))"
  by (cases r) simp_all

lemma block_append: "block (xs @ ys) w = bind (block xs w) (\<lambda>_. block ys)"
proof (induction xs arbitrary: w)
  case Nil
  show ?case by simp
next
  case (Cons s xs)
  show ?case
    by (cases "s w") (simp_all add: Cons.IH)
qed

lemma print_eq: "print s w = Returns () (w\<lparr>stdout := stdout w @ [s]\<rparr>)"
  by (simp add: print_def)

lemma log_eq:
  "log m w = Returns () (w\<lparr>ticks := Suc (ticks w),
                           stdout := stdout w @ [''['' @ clock w (ticks w) @ ''] '' @ m]\<rparr>)"
  by (simp add: log_def print_def)

subsection \<open>Writes and the file system\<close>

lemma node_at_update_other:
  "q \<noteq> p \<Longrightarrow> node_at (AList.update p v fs) q = node_at fs q"
  by (simp add: node_at_def update_conv')

lemma node_at_update_same:
  "p \<noteq> [] \<Longrightarrow> node_at (AList.update p v fs) p = Some v"
  by (simp add: node_at_def update_conv')

lemma walk_update:
  "length pre + length cs < length p \<Longrightarrow> walk (AList.update p v fs) pre cs = walk fs pre cs"
proof (induction cs arbitrary: pre)
  case Nil
  show ?case by simp
next
  case (Cons c cs)
  from Cons.prems have ne: "pre @ [c] \<noteq> p" by auto
  from Cons.prems have "length (pre @ [c]) + length cs < length p" by simp
  then have "walk (AList.update p v fs) (pre @ [c]) cs = walk fs (pre @ [c]) cs"
    by (rule Cons.IH)
  with ne show ?case
    by (simp add: node_at_update_other split: option.splits node.splits)
qed

lemma walk_update_parent:
  "p \<noteq> [] \<Longrightarrow> length q = length p \<Longrightarrow>
   walk (AList.update p v fs) [] (butlast q) = walk fs [] (butlast q)"
  by (rule walk_update) (cases q rule: rev_cases, simp_all)

lemma can_write_iff:
  "can_write w p \<longleftrightarrow>
     walk (files w) [] (butlast p) = None \<and> node_at (files w) p \<noteq> Some Dir \<and> \<not> denied w p"
  by (auto simp add: can_write_def open_write_def split: option.splits node.splits)

lemma can_write_nonempty: "can_write w p \<Longrightarrow> p \<noteq> []"
  by (auto simp add: can_write_iff node_at_def)

lemma open_write_can:
  "can_write w p \<Longrightarrow> open_write p c w = Returns () (wrote p c w)"
  by (auto simp add: can_write_iff open_write_def wrote_def split: option.splits node.splits)

lemma open_write_cannot:
  "\<not> can_write w p \<Longrightarrow> \<exists>e. open_write p c w = Raises (OSError e p) w"
  by (auto simp add: can_write_iff open_write_def split: option.splits node.splits)

lemma open_write_cannot_content:
  "\<not> can_write w p \<Longrightarrow> open_write p c w = open_write p c' w"
  by (auto simp add: can_write_iff open_write_def split: option.splits node.splits)

lemma files_wrote [simp]: "files (wrote p c w) = AList.update p (File c) (files w)"
  and denied_wrote [simp]: "denied (wrote p c w) = denied w"
  and written_wrote [simp]: "written (wrote p c w) = written w @ [p]"
  and stdout_wrote [simp]: "stdout (wrote p c w) = stdout w"
  and ticks_wrote [simp]: "ticks (wrote p c w) = ticks w"
  and clock_wrote [simp]: "clock (wrote p c w) = clock w"
  and cwd_wrote [simp]: "cwd (wrote p c w) = cwd w"
  by (simp_all add: wrote_def)

lemma can_write_wrote:
  assumes "can_write w p" and "length q = length p"
  shows "can_write (wrote p c w) q \<longleftrightarrow> can_write w q"
proof -
  from assms(1) have ne: "p \<noteq> []" by (rule can_write_nonempty)
  have walk_eq: "walk (files (wrote p c w)) [] (butlast q) = walk (files w) [] (butlast q)"
    using ne assms(2) by (simp add: walk_update_parent)
  show ?thesis
  proof (cases "q = p")
    case True
    with assms(1) ne walk_eq show ?thesis
      by (simp add: can_write_iff node_at_update_same)
  next
    case False
    with walk_eq show ?thesis
      by (simp add: can_write_iff node_at_update_other)
  qed
qed

lemma open_write_wrote_error:
  assumes "can_write w p" and "length q = length p" and "\<not> can_write w q"
  shows "exn_of (open_write q c' (wrote p c w)) = exn_of (open_write q c' w)"
proof -
  from assms(1) have ne: "p \<noteq> []" by (rule can_write_nonempty)
  from assms(1,3) have "q \<noteq> p" by auto
  moreover have "walk (files (wrote p c w)) [] (butlast q) = walk (files w) [] (butlast q)"
    using ne assms(2) by (simp add: walk_update_parent)
  ultimately show ?thesis
    by (simp add: open_write_def node_at_update_other split: option.splits node.splits)
qed

lemma is_dir_wrote:
  assumes "can_write w p" and "length out < length p"
  shows "is_dir out (wrote p c w) \<longleftrightarrow> is_dir out w"
proof -
  have "length [] + length (butlast out) < length p"
    using assms(2) by simp
  then have "walk (AList.update p (File c) (files w)) [] (butlast out) = walk (files w) [] (butlast out)"
    by (rule walk_update)
  moreover have "out \<noteq> p" using assms(2) by auto
  ultimately show ?thesis
    by (simp add: is_dir_def node_at_update_other)
qed

subsection \<open>Writing a list of files\<close>

lemma write_fixtures_Nil [simp]: "write_fixtures out [] w = Returns () w"
  by (simp add: write_fixtures_def)

lemma write_fixtures_Cons:
  "write_fixtures out (nc # cat) w =
     (if can_write w (out @ [fst nc])
      then write_fixtures out cat (wrote (out @ [fst nc]) (snd nc) w)
      else open_write (out @ [fst nc]) (snd nc) w)"
proof (cases "can_write w (out @ [fst nc])")
  case True
  then show ?thesis
    by (simp add: write_fixtures_def open_write_can)
next
  case False
  then obtain e where "open_write (out @ [fst nc]) (snd nc) w = Raises (OSError e (out @ [fst nc])) w"
    using open_write_cannot by blast
  with False show ?thesis
    by (simp add: write_fixtures_def)
qed

lemma completed_wrote:
  assumes "can_write w (out @ [n])"
  shows "completed out cat (wrote (out @ [n]) c w) = completed out cat w"
  unfolding completed_def
  by (rule takeWhile_cong) (simp_all add: can_write_wrote [OF assms])

lemma completed_Cons:
  "completed out (nc # cat) w =
     (if can_write w (out @ [fst nc]) then nc # completed out cat w else [])"
  by (simp add: completed_def)

lemma write_files_Nil [simp]: "write_files out [] fs = fs"
  by (simp add: write_files_def)

lemma write_files_Cons [simp]:
  "write_files out (nc # cat) fs =
     write_files out cat (AList.update (out @ [fst nc]) (File (snd nc)) fs)"
  by (simp add: write_files_def)

lemma final_write_fixtures:
  "files (final (write_fixtures out cat w)) = write_files out (completed out cat w) (files w)
   \<and> written (final (write_fixtures out cat w))
       = written w @ map (\<lambda>nc. out @ [fst nc]) (completed out cat w)
   \<and> denied (final (write_fixtures out cat w)) = denied w
   \<and> stdout (final (write_fixtures out cat w)) = stdout w
   \<and> ticks (final (write_fixtures out cat w)) = ticks w
   \<and> clock (final (write_fixtures out cat w)) = clock w
   \<and> cwd (final (write_fixtures out cat w)) = cwd w"
proof (induction cat arbitrary: w)
  case Nil
  show ?case by (simp add: completed_def)
next
  case (Cons nc cat)
  show ?case
  proof (cases "can_write w (out @ [fst nc])")
    case True
    then show ?thesis
      using Cons.IH [of "wrote (out @ [fst nc]) (snd nc) w"]
      by (simp add: write_fixtures_Cons completed_Cons completed_wrote)
  next
    case False
    then obtain e where "open_write (out @ [fst nc]) (snd nc) w = Raises (OSError e (out @ [fst nc])) w"
      using open_write_cannot by blast
    with False show ?thesis
      by (simp add: write_fixtures_Cons completed_Cons)
  qed
qed

lemma returned_write_fixtures:
  "returned (write_fixtures out cat w) \<longleftrightarrow> (\<forall>nc \<in> set cat. can_write w (out @ [fst nc]))"
proof (induction cat arbitrary: w)
  case Nil
  show ?case by simp
next
  case (Cons nc cat)
  show ?case
  proof (cases "can_write w (out @ [fst nc])")
    case True
    then show ?thesis
      using Cons.IH [of "wrote (out @ [fst nc]) (snd nc) w"]
      by (simp add: write_fixtures_Cons can_write_wrote)
  next
    case False
    then obtain e where "open_write (out @ [fst nc]) (snd nc) w = Raises (OSError e (out @ [fst nc])) w"
      using open_write_cannot by blast
    with False show ?thesis
      by (simp add: write_fixtures_Cons)
  qed
qed

lemma completed_all:
  "(\<forall>nc \<in> set cat. can_write w (out @ [fst nc])) \<Longrightarrow> completed out cat w = cat"
  by (simp add: completed_def)

lemma raised_write_fixtures:
  "\<not> returned (write_fixtures out cat w) \<Longrightarrow>
   \<exists>nc \<in> set cat. \<not> can_write w (out @ [fst nc])
      \<and> exn_of (write_fixtures out cat w) = exn_of (open_write (out @ [fst nc]) (snd nc) w)"
proof (induction cat arbitrary: w)
  case Nil
  then show ?case by simp
next
  case (Cons nc cat)
  show ?case
  proof (cases "can_write w (out @ [fst nc])")
    case True
    let ?w = "wrote (out @ [fst nc]) (snd nc) w"
    from True Cons.prems have "\<not> returned (write_fixtures out cat ?w)"
      by (simp add: write_fixtures_Cons)
    then obtain x where x: "x \<in> set cat" "\<not> can_write ?w (out @ [fst x])"
      "exn_of (write_fixtures out cat ?w) = exn_of (open_write (out @ [fst x]) (snd x) ?w)"
      using Cons.IH by blast
    from x(2) True have nx: "\<not> can_write w (out @ [fst x])"
      by (simp add: can_write_wrote)
    have "exn_of (open_write (out @ [fst x]) (snd x) ?w) = exn_of (open_write (out @ [fst x]) (snd x) w)"
      using True _ nx by (rule open_write_wrote_error) simp
    with x nx True show ?thesis
      by (auto simp add: write_fixtures_Cons)
  next
    case False
    then show ?thesis
      by (simp add: write_fixtures_Cons)
  qed
qed

lemma exn_of_open_write:
  "exn_of (open_write p c w) = Some e \<Longrightarrow> \<exists>k. e = OSError k p"
  by (auto simp add: open_write_def split: option.splits node.splits if_splits)

subsection \<open>The file system after a list of writes\<close>

lemma node_at_write_files_other:
  "\<forall>nc \<in> set cat. out @ [fst nc] \<noteq> p \<Longrightarrow> node_at (write_files out cat fs) p = node_at fs p"
proof (induction cat arbitrary: fs)
  case Nil
  show ?case by simp
next
  case (Cons x cat)
  from Cons.prems have "p \<noteq> out @ [fst x]" by auto
  with Cons show ?case
    by (simp add: node_at_update_other)
qed

lemma node_at_write_files_in:
  "distinct (map fst cat) \<Longrightarrow> (n, c) \<in> set cat \<Longrightarrow>
   node_at (write_files out cat fs) (out @ [n]) = Some (File c)"
proof (induction cat arbitrary: fs)
  case Nil
  then show ?case by simp
next
  case (Cons x cat)
  show ?case
  proof (cases "x = (n, c)")
    case True
    with Cons.prems(1) have "\<forall>nc \<in> set cat. out @ [fst nc] \<noteq> out @ [n]"
      by auto
    then show ?thesis
      using True by (simp add: node_at_write_files_other node_at_update_same)
  next
    case False
    with Cons show ?thesis by simp
  qed
qed

lemma write_files_triv:
  "\<forall>nc \<in> set cat. node_at fs (out @ [fst nc]) = Some (File (snd nc)) \<Longrightarrow> write_files out cat fs = fs"
  by (induction cat) (simp_all add: node_at_def update_triv)

lemma write_files_idem:
  "distinct (map fst cat) \<Longrightarrow> write_files out cat (write_files out cat fs) = write_files out cat fs"
  by (rule write_files_triv) (auto simp add: node_at_write_files_in)

lemma keys_write_files:
  "set (map fst (write_files out cat fs)) = set (map fst fs) \<union> (\<lambda>nc. out @ [fst nc]) ` set cat"
proof (induction cat arbitrary: fs)
  case Nil
  show ?case by simp
next
  case (Cons x cat)
  have "fst ` set (write_files out (x # cat) fs)
      = fst ` set (AList.update (out @ [fst x]) (File (snd x)) fs) \<union> (\<lambda>nc. out @ [fst nc]) ` set cat"
    using Cons.IH [of "AList.update (out @ [fst x]) (File (snd x)) fs"] by simp
  then show ?case
    by (simp add: dom_update)
qed

lemma keys_prefix_write_files:
  "\<exists>ks. map fst (write_files out cat fs) = map fst fs @ ks"
proof (induction cat arbitrary: fs)
  case Nil
  show ?case by simp
next
  case (Cons x cat)
  obtain ks where "map fst (write_files out cat (AList.update (out @ [fst x]) (File (snd x)) fs))
      = map fst (AList.update (out @ [fst x]) (File (snd x)) fs) @ ks"
    using Cons.IH by blast
  then show ?case
    by (simp add: update_keys)
qed

lemma distinct_write_files:
  "distinct (map fst fs) \<Longrightarrow> distinct (map fst (write_files out cat fs))"
  by (induction cat arbitrary: fs) (simp_all add: distinct_update)

lemma count_update:
  "length (filter P (map fst (AList.update k v al)))
     = length (filter P (map fst al)) + (if P k \<and> k \<notin> set (map fst al) then 1 else 0)"
proof (cases "k \<in> set (map fst al)")
  case True
  then have "map fst (AList.update k v al) = map fst al"
    by (simp only: update_keys if_True)
  with True show ?thesis by simp
next
  case False
  then have "map fst (AList.update k v al) = map fst al @ [k]"
    by (simp only: update_keys if_False)
  then have "filter P (map fst (AList.update k v al)) = filter P (map fst al) @ filter P [k]"
    by (simp only: filter_append)
  with False show ?thesis by simp
qed

lemma card_insert_minus:
  assumes "finite T"
  shows "(if k \<in> K then 0 else 1) + card (T - insert k K) = card (insert k T - K)"
proof (cases "k \<in> K")
  case True
  then have "insert k T - K = T - insert k K" by auto
  then show ?thesis using True by (simp only: if_True add_0)
next
  case False
  have fin: "finite (T - K)" using assms by simp
  have a: "insert k T - K = insert k (T - K)" using False by auto
  have b: "T - insert k K = (T - K) - {k}" by auto
  have "1 + card ((T - K) - {k}) = card (insert k (T - K))"
  proof (cases "k \<in> T - K")
    case True
    then have "insert k (T - K) = T - K" by auto
    moreover from True fin have "card ((T - K) - {k}) = card (T - K) - 1" by (simp only: card_Diff_singleton)
    moreover from True fin have "0 < card (T - K)" by (auto simp add: card_gt_0_iff)
    ultimately have "1 + card ((T - K) - {k}) = card (T - K)" by linarith
    then show ?thesis using True by (simp only: insert_absorb)
  next
    case nin: False
    then have "(T - K) - {k} = T - K" by auto
    moreover from fin nin have "card (insert k (T - K)) = Suc (card (T - K))" by (rule card_insert_disjoint)
    ultimately show ?thesis by (simp only: plus_1_eq_Suc)
  qed
  with False show ?thesis by (simp only: a b if_False)
qed


lemma count_write_files:
  assumes "\<forall>nc \<in> set cat. P (out @ [fst nc])"
  shows "length (filter P (map fst (write_files out cat fs)))
     = length (filter P (map fst fs)) + card ((\<lambda>nc. out @ [fst nc]) ` set cat - set (map fst fs))"
  using assms
proof (induction cat arbitrary: fs)
  case Nil
  show ?case by simp
next
  case (Cons x cat)
  let ?k = "out @ [fst x]"
  let ?T = "(\<lambda>nc. out @ [fst nc]) ` set cat"
  let ?K = "set (map fst fs)"
  have keys: "set (map fst (AList.update ?k (File (snd x)) fs)) = insert ?k ?K"
    by (simp add: dom_update)
  have step: "(if ?k \<in> ?K then 0 else 1) + card (?T - insert ?k ?K) = card (insert ?k ?T - ?K)"
    by (rule card_insert_minus) simp
  from Cons.prems have Pk: "P ?k" and rest: "\<forall>nc \<in> set cat. P (out @ [fst nc])" by simp_all
  let ?fs = "AList.update ?k (File (snd x)) fs"
  have "length (filter P (map fst (write_files out (x # cat) fs)))
      = length (filter P (map fst (write_files out cat ?fs)))"
    by (simp only: write_files_Cons)
  also have "\<dots> = length (filter P (map fst ?fs)) + card (?T - set (map fst ?fs))"
    by (rule Cons.IH [OF rest])
  also have "\<dots> = length (filter P (map fst ?fs)) + card (?T - insert ?k ?K)"
    by (simp only: keys)
  also have "\<dots> = length (filter P (map fst fs)) + (if P ?k \<and> ?k \<notin> ?K then 1 else 0)
      + card (?T - insert ?k ?K)"
    by (simp only: count_update)
  also have "\<dots> = length (filter P (map fst fs)) + ((if ?k \<in> ?K then 0 else 1) + card (?T - insert ?k ?K))"
    using Pk by (cases "?k \<in> ?K") (simp_all only: if_True if_False simp_thms add.assoc)
  also have "\<dots> = length (filter P (map fst fs)) + card (insert ?k ?T - ?K)"
    by (simp only: step)
  finally have total: "length (filter P (map fst (write_files out (x # cat) fs)))
      = length (filter P (map fst fs)) + card (insert ?k ?T - ?K)" .
  have "(\<lambda>nc. out @ [fst nc]) ` set (x # cat) = insert ?k ?T"
    by (simp only: list.set image_insert)
  with total show ?case
    by (simp only:)
qed

subsection \<open>The run and its writes\<close>

lemma same_fs_refl [simp]: "same_fs w w"
  by (simp add: same_fs_def)

lemma simulates_log: "simulates (log m) (block [])"
  by (simp add: simulates_def sim_def log_eq same_fs_def)

lemma simulates_print: "simulates (print m) (block [])"
  by (simp add: simulates_def sim_def print_eq same_fs_def)

lemma open_write_same_fs:
  "same_fs w v \<Longrightarrow> sim (open_write p c w) (open_write p c v)"
  by (simp add: same_fs_def sim_def open_write_def split: option.splits node.splits)

lemma simulates_open_write: "simulates (open_write p c) (block [open_write p c])"
proof (unfold simulates_def, intro allI impI)
  fix w v
  assume "same_fs w v"
  then have "sim (open_write p c w) (open_write p c v)"
    by (rule open_write_same_fs)
  then show "sim (open_write p c w) (block [open_write p c] v)"
    by (cases "open_write p c v") (simp_all add: sim_def)
qed

lemma simulates_create_file:
  "simulates (discard (create_file g n c d)) (block [open_write (output_dir g @ [n]) c])"
proof (unfold simulates_def, intro allI impI)
  fix w v
  assume "same_fs w v"
  then have s: "sim (open_write (output_dir g @ [n]) c w) (open_write (output_dir g @ [n]) c v)"
    by (rule open_write_same_fs)
  show "sim (discard (create_file g n c d) w) (block [open_write (output_dir g @ [n]) c] v)"
  proof (cases "open_write (output_dir g @ [n]) c w")
    case (Returns u w')
    with s show ?thesis
      by (cases "open_write (output_dir g @ [n]) c v")
        (simp_all add: sim_def discard_def create_file_def log_eq same_fs_def)
  next
    case (Raises e w')
    with s show ?thesis
      by (cases "open_write (output_dir g @ [n]) c v")
        (simp_all add: sim_def discard_def create_file_def)
  qed
qed

lemma simulates_nested:
  assumes "simulates s (block as1)" and "simulates (block ss) (block as2)"
  shows "simulates (block (s # ss)) (block (as1 @ as2))"
proof (unfold simulates_def, intro allI impI)
  fix w v
  assume "same_fs w v"
  with assms(1) have s: "sim (s w) (block as1 v)"
    by (simp add: simulates_def)
  show "sim (block (s # ss) w) (block (as1 @ as2) v)"
  proof (cases "s w")
    case (Returns u w')
    with s obtain v' where v': "block as1 v = Returns () v'" "same_fs w' v'"
      by (cases "block as1 v") (simp_all add: sim_def)
    from assms(2) v'(2) have "sim (block ss w') (block as2 v')"
      by (simp add: simulates_def)
    with Returns v'(1) show ?thesis
      by (simp add: block_append)
  next
    case (Raises e w')
    with s obtain v' where "block as1 v = Raises e v'" "same_fs w' v'"
      by (cases "block as1 v") (simp_all add: sim_def)
    with Raises show ?thesis
      by (simp add: block_append sim_def)
  qed
qed

lemma simulates_block_Nil: "simulates (block []) (block [])"
  by (simp add: simulates_def sim_def)

lemma simulates_skip:
  "simulates s (block []) \<Longrightarrow> simulates (block ss) (block as) \<Longrightarrow>
   simulates (block (s # ss)) (block as)"
  using simulates_nested [of s "[]" ss as] by simp

lemma simulates_step:
  "simulates s (block [a]) \<Longrightarrow> simulates (block ss) (block as) \<Longrightarrow>
   simulates (block (s # ss)) (block (a # as))"
  using simulates_nested [of s "[a]" ss as] by simp

lemmas simulates_log_Cons = simulates_skip [OF simulates_log]
lemmas simulates_print_Cons = simulates_skip [OF simulates_print]
lemmas simulates_create_Cons = simulates_step [OF simulates_create_file]
lemmas simulates_open_Cons = simulates_step [OF simulates_open_write]

lemmas simulates_statements =
  simulates_log_Cons simulates_print_Cons simulates_create_Cons simulates_open_Cons
  simulates_block_Nil

lemma js_writes:
  assumes "simulates (block ss) (block as)"
  shows "simulates (block (generate_js_files g # ss))
     (block (open_write (output_dir g @ [''basic.js'']) content_basic_js
           # open_write (output_dir g @ [''with_copyright.js'']) content_with_copyright_js
           # open_write (output_dir g @ [''different_copyright.js'']) content_different_copyright_js
           # as))"
proof -
  have "simulates (generate_js_files g)
     (block [open_write (output_dir g @ [''basic.js'']) content_basic_js,
             open_write (output_dir g @ [''with_copyright.js'']) content_with_copyright_js,
             open_write (output_dir g @ [''different_copyright.js'']) content_different_copyright_js])"
    unfolding generate_js_files_def by (rule simulates_statements)+
  from simulates_nested [OF this assms] show ?thesis by simp
qed

lemma ts_writes:
  assumes "simulates (block ss) (block as)"
  shows "simulates (block (generate_ts_files g # ss))
     (block (open_write (output_dir g @ [''basic.ts'']) content_basic_ts
           # open_write (output_dir g @ [''with_copyright.ts'']) content_with_copyright_ts
           # as))"
proof -
  have "simulates (generate_ts_files g)
     (block [open_write (output_dir g @ [''basic.ts'']) content_basic_ts,
             open_write (output_dir g @ [''with_copyright.ts'']) content_with_copyright_ts])"
    unfolding generate_ts_files_def by (rule simulates_statements)+
  from simulates_nested [OF this assms] show ?thesis by simp
qed

lemma ahk_writes:
  assumes "simulates (block ss) (block as)"
  shows "simulates (block (generate_ahk_files g # ss))
     (block (open_write (output_dir g @ [''basic.ahk'']) content_basic_ahk
           # open_write (output_dir g @ [''basic.ahk2'']) content_basic_ahk2
           # open_write (output_dir g @ [''with_copyright.ahk'']) content_with_copyright_ahk
           # as))"
proof -
  have "simulates (generate_ahk_files g)
     (block [open_write (output_dir g @ [''basic.ahk'']) content_basic_ahk,
             open_write (output_dir g @ [''basic.ahk2'']) content_basic_ahk2,
             open_write (output_dir g @ [''with_copyright.ahk'']) content_with_copyright_ahk])"
    unfolding generate_ahk_files_def by (rule simulates_statements)+
  from simulates_nested [OF this assms] show ?thesis by simp
qed

lemma py_writes:
  assumes "simulates (block ss) (block as)"
  shows "simulates (block (generate_py_files g # ss))
     (block (open_write (output_dir g @ [''basic.py'']) content_basic_py
           # open_write (output_dir g @ [''with_copyright.py'']) content_with_copyright_py
           # as))"
proof -
  have "simulates (generate_py_files g)
     (block [open_write (output_dir g @ [''basic.py'']) content_basic_py,
             open_write (output_dir g @ [''with_copyright.py'']) content_with_copyright_py])"
    unfolding generate_py_files_def by (rule simulates_statements)+
  from simulates_nested [OF this assms] show ?thesis by simp
qed

lemma cpp_writes:
  assumes "simulates (block ss) (block as)"
  shows "simulates (block (generate_cpp_files g # ss))
     (block (open_write (output_dir g @ [''basic.cpp'']) content_basic_cpp
           # open_write (output_dir g @ [''basic.h'']) content_basic_h
           # as))"
proof -
  have "simulates (generate_cpp_files g)
     (block [open_write (output_dir g @ [''basic.cpp'']) content_basic_cpp,
             open_write (output_dir g @ [''basic.h'']) content_basic_h])"
    unfolding generate_cpp_files_def by (rule simulates_statements)+
  from simulates_nested [OF this assms] show ?thesis by simp
qed

lemma json_writes:
  assumes "simulates (block ss) (block as)"
  shows "simulates (block (generate_json_files g # ss))
     (block (open_write (output_dir g @ [''config.json'']) content_config_json
           # open_write (output_dir g @ [''package.json'']) content_package_json
           # as))"
proof -
  have "simulates (generate_json_files g)
     (block [open_write (output_dir g @ [''config.json'']) content_config_json,
             open_write (output_dir g @ [''package.json'']) content_package_json])"
    unfolding generate_json_files_def by (rule simulates_statements)+
  from simulates_nested [OF this assms] show ?thesis by simp
qed

lemma mixed_writes:
  assumes "simulates (block ss) (block as)"
  shows "simulates (block (generate_mixed_files g # ss))
     (block (open_write (output_dir g @ [''basic.html'']) content_basic_html
           # open_write (output_dir g @ [''basic.css'']) content_basic_css
           # open_write (output_dir g @ [''basic.sh'']) content_basic_sh
           # as))"
proof -
  have "simulates (generate_mixed_files g)
     (block [open_write (output_dir g @ [''basic.html'']) content_basic_html,
             open_write (output_dir g @ [''basic.css'']) content_basic_css,
             open_write (output_dir g @ [''basic.sh'']) content_basic_sh])"
    unfolding generate_mixed_files_def by (rule simulates_statements)+
  from simulates_nested [OF this assms] show ?thesis by simp
qed

lemma settings_writes:
  assumes "simulates (block ss) (block as)"
  shows "simulates (block (generate_vscode_settings g # ss))
     (block (open_write (output_dir g @ [''test_settings.json'']) (json_dumps settings 4) # as))"
proof -
  have "simulates (generate_vscode_settings g)
     (block [open_write (output_dir g @ [''test_settings.json'']) (json_dumps settings 4)])"
    unfolding generate_vscode_settings_def Let_def by (rule simulates_statements)+
  from simulates_nested [OF this assms] show ?thesis by simp
qed

lemma readme_writes:
  assumes "simulates (block ss) (block as)"
  shows "simulates (block (generate_readme g # ss))
     (block (open_write (output_dir g @ [''README.md'']) readme_content # as))"
proof -
  have "simulates (generate_readme g)
     (block [open_write (output_dir g @ [''README.md'']) readme_content])"
    unfolding generate_readme_def Let_def by (rule simulates_statements)+
  from simulates_nested [OF this assms] show ?thesis by simp
qed

lemma summary_eq:
  "summary g w = Returns ()
     (w\<lparr>ticks := Suc (Suc (Suc (ticks w))),
        stdout := stdout w @
          [''['' @ clock w (ticks w) @ ''] === Test file generation completed ==='',
           ''['' @ clock w (Suc (ticks w)) @ ''] Generated ''
              @ str_nat (length (glob_star (output_dir g) w)) @ '' files in ''
              @ str_path (output_dir g),
           ''['' @ clock w (Suc (Suc (ticks w)))
              @ ''] Use these files to test the copyright notice extension!'']\<rparr>)"
  by (simp add: summary_def log_eq)

lemma simulates_summary: "simulates (summary g) (block [])"
  by (simp add: simulates_def sim_def summary_eq same_fs_def)

lemma try_body_split: "try_body g = block (writers g @ [summary g])"
  by (simp add: try_body_def writers_def summary_def)

lemmas simulates_writers =
  js_writes ts_writes ahk_writes py_writes cpp_writes json_writes mixed_writes
  settings_writes readme_writes simulates_print_Cons simulates_block_Nil

lemma writers_simulate: "simulates (block (writers g)) (write_fixtures (output_dir g) fixtures)"
  unfolding writers_def write_fixtures_def fixtures_def list.map fst_conv snd_conv
  by (rule simulates_writers)+

lemma try_body_simulates: "simulates (try_body g) (write_fixtures (output_dir g) fixtures)"
proof (unfold simulates_def, intro allI impI)
  fix w v
  assume "same_fs w v"
  with writers_simulate have s: "sim (block (writers g) w) (write_fixtures (output_dir g) fixtures v)"
    by (simp add: simulates_def)
  show "sim (try_body g w) (write_fixtures (output_dir g) fixtures v)"
  proof (cases "block (writers g) w")
    case (Returns u w')
    with s show ?thesis
      by (simp add: try_body_split block_append sim_def summary_eq same_fs_def)
  next
    case (Raises e w')
    with s show ?thesis
      by (simp add: try_body_split block_append sim_def)
  qed
qed

subsection \<open>\<open>generate_all\<close>\<close>

lemma absolute_update [simp]:
  "absolute (w\<lparr>ticks := t\<rparr>) p = absolute w p"
  "absolute (w\<lparr>stdout := out\<rparr>) p = absolute w p"
  "absolute (w\<lparr>files := fs\<rparr>) p = absolute w p"
  "absolute (w\<lparr>written := ps\<rparr>) p = absolute w p"
  by (simp_all add: absolute_def)

lemma generate_all_eq:
  "generate_all g w =
     (case try_body g (started g w) of
        Returns _ w2 \<Rightarrow> Returns True w2
      | Raises e w2 \<Rightarrow> if is_Exception e then Returns False (failed e w2) else Raises e w2)"
  by (simp add: generate_all_def log_eq print_eq started_def failed_def split: result.splits)

lemma same_fs_started: "same_fs (started g w) w"
  by (simp add: same_fs_def started_def)

lemma fst_fixtures: "map fst fixtures = fixed_filenames"
  by (simp add: fixtures_def fixed_filenames_def)

lemma distinct_fixed_filenames: "distinct fixed_filenames"
  by (simp add: fixed_filenames_def)

lemma distinct_fixtures: "distinct (map fst fixtures)"
  by (simp only: fst_fixtures distinct_fixed_filenames)

lemma length_fixed_filenames: "length fixed_filenames = 19"
  by (simp add: fixed_filenames_def)

lemma all_fixtures_iff:
  "(\<forall>nc \<in> set fixtures. can_write w (out @ [fst nc]))
     \<longleftrightarrow> (\<forall>n \<in> set fixed_filenames. can_write w (out @ [n]))"
proof -
  have "set fixed_filenames = fst ` set fixtures"
    by (simp only: fst_fixtures [symmetric] set_map)
  then show ?thesis by simp
qed

lemma try_body_sim:
  "sim (try_body g (started g w)) (write_fixtures (output_dir g) fixtures w)"
  using try_body_simulates same_fs_started by (simp only: simulates_def)

lemma raised_write_fixtures_first:
  "\<not> returned (write_fixtures out cat w) \<Longrightarrow>
   \<exists>nc rest. cat = completed out cat w @ nc # rest \<and> \<not> can_write w (out @ [fst nc])
      \<and> exn_of (write_fixtures out cat w) = exn_of (open_write (out @ [fst nc]) (snd nc) w)"
proof (induction cat arbitrary: w)
  case Nil
  then show ?case by simp
next
  case (Cons nc cat)
  show ?case
  proof (cases "can_write w (out @ [fst nc])")
    case True
    let ?w = "wrote (out @ [fst nc]) (snd nc) w"
    from True Cons.prems have "\<not> returned (write_fixtures out cat ?w)"
      by (simp add: write_fixtures_Cons)
    then obtain x rest where x: "cat = completed out cat ?w @ x # rest" "\<not> can_write ?w (out @ [fst x])"
      "exn_of (write_fixtures out cat ?w) = exn_of (open_write (out @ [fst x]) (snd x) ?w)"
      using Cons.IH by blast
    from x(2) True have nx: "\<not> can_write w (out @ [fst x])"
      by (simp add: can_write_wrote)
    have "exn_of (open_write (out @ [fst x]) (snd x) ?w) = exn_of (open_write (out @ [fst x]) (snd x) w)"
      using True _ nx by (rule open_write_wrote_error) simp
    with x(3) True have e: "exn_of (write_fixtures out (nc # cat) w)
        = exn_of (open_write (out @ [fst x]) (snd x) w)"
      by (simp add: write_fixtures_Cons)
    from x(1) True have "nc # cat = completed out (nc # cat) w @ x # rest"
      by (simp add: completed_Cons completed_wrote)
    with nx e show ?thesis by blast
  next
    case False
    then have "nc # cat = completed out (nc # cat) w @ nc # cat"
      by (simp add: completed_Cons)
    with False show ?thesis
      by (auto simp add: write_fixtures_Cons)
  qed
qed

text \<open>What every call of \<open>generate_all\<close> does to the file system.\<close>

lemma generate_all_files:
  "\<exists>b w'. generate_all g w = Returns b w'
     \<and> (b \<longleftrightarrow> (\<forall>n \<in> set fixed_filenames. can_write w (output_dir g @ [n])))
     \<and> files w' = write_files (output_dir g) (completed (output_dir g) fixtures w) (files w)
     \<and> written w' = written w @ paths_of (output_dir g) (completed (output_dir g) fixtures w)
     \<and> denied w' = denied w"
proof -
  let ?out = "output_dir g"
  let ?a = "write_fixtures ?out fixtures w"
  have s: "sim (try_body g (started g w)) ?a" by (rule try_body_sim)
  have fin: "files (final ?a) = write_files ?out (completed ?out fixtures w) (files w)"
    "written (final ?a) = written w @ paths_of ?out (completed ?out fixtures w)"
    "denied (final ?a) = denied w"
    using final_write_fixtures [of ?out fixtures w] by (simp_all add: paths_of_def)
  have ret: "returned ?a \<longleftrightarrow> (\<forall>n \<in> set fixed_filenames. can_write w (?out @ [n]))"
    by (simp only: returned_write_fixtures all_fixtures_iff)
  show ?thesis
  proof (cases "try_body g (started g w)")
    case (Returns u w2)
    with s have "exn_of ?a = None" and "same_fs w2 (final ?a)"
      by (simp_all add: sim_def)
    then have "returned ?a" by (cases ?a) simp_all
    with ret have all: "\<forall>n \<in> set fixed_filenames. can_write w (?out @ [n])" by simp
    from Returns have "generate_all g w = Returns True w2"
      by (simp add: generate_all_eq)
    with all fin \<open>same_fs w2 (final ?a)\<close> show ?thesis
      by (intro exI [of _ True] exI [of _ w2]) (simp add: same_fs_def)
  next
    case (Raises e w2)
    with s have e: "exn_of ?a = Some e" and same: "same_fs w2 (final ?a)"
      by (simp_all add: sim_def)
    then have nret: "\<not> returned ?a" by (cases ?a) simp_all
    then obtain nc where "exn_of ?a = exn_of (open_write (?out @ [fst nc]) (snd nc) w)"
      using raised_write_fixtures by blast
    with e obtain k where "e = OSError k (?out @ [fst nc])"
      using exn_of_open_write by metis
    then have "is_Exception e" by simp
    with Raises have "generate_all g w = Returns False (failed e w2)"
      by (simp add: generate_all_eq)
    with nret ret fin same show ?thesis
      by (intro exI [of _ False] exI [of _ "failed e w2"]) (simp add: same_fs_def failed_def)
  qed
qed

lemma completed_fixtures_all:
  "\<forall>n \<in> set fixed_filenames. can_write w (out @ [n]) \<Longrightarrow> completed out fixtures w = fixtures"
  by (rule completed_all) (simp only: all_fixtures_iff)

lemma generate_all_success:
  assumes "\<forall>n \<in> set fixed_filenames. can_write w (output_dir g @ [n])"
  shows "\<exists>w'. generate_all g w = Returns True w'
     \<and> files w' = write_files (output_dir g) fixtures (files w)
     \<and> written w' = written w @ paths_of (output_dir g) fixtures
     \<and> denied w' = denied w"
  using generate_all_files [of g w] assms
  by (auto simp add: completed_fixtures_all)

text \<open>The log of a run that succeeds ends with the summary.\<close>

lemma generate_all_summary:
  assumes "generate_all g w = Returns True w'"
  shows "\<exists>pre t1 t2 t3. stdout w' = pre @
     [''['' @ t1 @ ''] === Test file generation completed ==='',
      ''['' @ t2 @ ''] Generated '' @ str_nat (length (glob_star (output_dir g) w'))
         @ '' files in '' @ str_path (output_dir g),
      ''['' @ t3 @ ''] Use these files to test the copyright notice extension!'']"
proof (cases "block (writers g) (started g w)")
  case (Returns u w1)
  then have "try_body g (started g w) = summary g w1"
    by (simp add: try_body_split block_append summary_eq)
  with assms have w': "w' = final (summary g w1)"
    by (simp add: generate_all_eq summary_eq)
  then have "files w' = files w1"
    by (simp add: summary_eq)
  then have "glob_star (output_dir g) w' = glob_star (output_dir g) w1"
    by (simp add: glob_star_def is_dir_def)
  with w' show ?thesis
    by (simp add: summary_eq)
next
  case (Raises e w1)
  then have "try_body g (started g w) = Raises e w1"
    by (simp add: try_body_split block_append)
  with assms show ?thesis
    by (simp add: generate_all_eq split: if_splits)
qed

text \<open>The log of a run that fails ends with the message of the exception.\<close>

lemma generate_all_failure:
  assumes "\<not> (\<forall>n \<in> set fixed_filenames. can_write w (output_dir g @ [n]))"
  shows "\<exists>w' e nc rest t. generate_all g w = Returns False w'
     \<and> fixtures = completed (output_dir g) fixtures w @ nc # rest
     \<and> open_write (output_dir g @ [fst nc]) (snd nc) w = Raises e w
     \<and> stdout w' \<noteq> []
     \<and> last (stdout w') = ''['' @ t @ ''] ERROR: Failed to generate test files: '' @ str_exn e"
proof -
  let ?out = "output_dir g"
  let ?a = "write_fixtures ?out fixtures w"
  have s: "sim (try_body g (started g w)) ?a" by (rule try_body_sim)
  from assms have nret: "\<not> returned ?a"
    by (simp add: returned_write_fixtures all_fixtures_iff)
  then obtain nc rest where nc: "fixtures = completed ?out fixtures w @ nc # rest"
      "\<not> can_write w (?out @ [fst nc])"
      "exn_of ?a = exn_of (open_write (?out @ [fst nc]) (snd nc) w)"
    using raised_write_fixtures_first by blast
  from nc(2) obtain k where k: "open_write (?out @ [fst nc]) (snd nc) w = Raises (OSError k (?out @ [fst nc])) w"
    using open_write_cannot by blast
  with nc(3) have "exn_of ?a = Some (OSError k (?out @ [fst nc]))" by simp
  with s obtain w2 where "try_body g (started g w) = Raises (OSError k (?out @ [fst nc])) w2"
    by (cases "try_body g (started g w)") (simp_all add: sim_def)
  then have "generate_all g w = Returns False (failed (OSError k (?out @ [fst nc])) w2)"
    by (simp add: generate_all_eq)
  moreover have "stdout (failed (OSError k (?out @ [fst nc])) w2) \<noteq> []"
    and "last (stdout (failed (OSError k (?out @ [fst nc])) w2))
       = ''['' @ clock w2 (ticks w2) @ ''] ERROR: Failed to generate test files: ''
           @ str_exn (OSError k (?out @ [fst nc]))"
    by (simp_all add: failed_def)
  ultimately show ?thesis
    using nc(1) k by blast
qed

subsection \<open>The constructor and \<open>main\<close>\<close>

lemma os_mkdir_raises:
  "os_mkdir p w = Raises e w' \<Longrightarrow> w' = w \<and> (\<exists>k. e = OSError k p)"
  by (auto simp add: os_mkdir_def split: option.splits if_splits)

lemma Path_mkdir_raises:
  "Path_mkdir p ok w = Raises e w' \<Longrightarrow> w' = w \<and> (\<exists>k. e = OSError k p)"
proof -
  assume a: "Path_mkdir p ok w = Raises e w'"
  show ?thesis
  proof (cases "os_mkdir p w")
    case (Returns u v)
    with a show ?thesis by (simp add: Path_mkdir_def)
  next
    case (Raises e0 v)
    with os_mkdir_raises have v: "v = w" and "\<exists>k. e0 = OSError k p" by blast+
    then obtain k where e0: "e0 = OSError k p" by blast
    from a Raises e0 v show ?thesis
      by (cases k) (auto simp add: Path_mkdir_def split: if_splits)
  qed
qed

lemma Path_mkdir_present:
  "is_dir p w \<Longrightarrow> Path_mkdir p True w = Returns () w"
  by (simp add: Path_mkdir_def os_mkdir_def is_dir_def)

lemma Path_mkdir_creates:
  assumes "walk (files w) [] (butlast p) = None" and "node_at (files w) p = None"
    and "\<not> denied w p"
  shows "Path_mkdir p ok w = Returns () (w\<lparr>files := AList.update p Dir (files w)\<rparr>)"
  using assms by (simp add: Path_mkdir_def os_mkdir_def)

lemma Path_mkdir_returns:
  assumes "Path_mkdir p True w = Returns u w'"
  shows "is_dir p w' \<and> (w' = w \<or> (node_at (files w) p = None
           \<and> w' = w\<lparr>files := AList.update p Dir (files w)\<rparr>))"
proof (cases "os_mkdir p w")
  case (Returns u0 v)
  then have c: "walk (files w) [] (butlast p) = None" "node_at (files w) p = None"
      "v = w\<lparr>files := AList.update p Dir (files w)\<rparr>"
    by (auto simp add: os_mkdir_def split: option.splits if_splits)
  from c(2) have ne: "p \<noteq> []" by (auto simp add: node_at_def)
  then have "walk (AList.update p Dir (files w)) [] (butlast p) = walk (files w) [] (butlast p)"
    by (simp add: walk_update_parent)
  with c ne have "is_dir p v"
    by (simp add: is_dir_def node_at_update_same)
  with assms Returns c show ?thesis
    by (simp add: Path_mkdir_def)
next
  case (Raises e v)
  with os_mkdir_raises have v: "v = w" and "\<exists>k. e = OSError k p" by blast+
  then obtain k where e: "e = OSError k p" by blast
  from assms Raises e v show ?thesis
    by (cases k) (simp_all add: Path_mkdir_def split: if_splits)
qed

lemma TestFileGenerator_raises:
  "TestFileGenerator s w = Raises e w' \<Longrightarrow>
   w' = w \<and> (\<exists>k. e = OSError k (Path s)) \<and> Path_mkdir (Path s) True w = Raises e w"
proof -
  assume a: "TestFileGenerator s w = Raises e w'"
  then have "Path_mkdir (Path s) True w = Raises e w'"
    by (cases "Path_mkdir (Path s) True w") (simp_all add: TestFileGenerator_def)
  with Path_mkdir_raises [of "Path s" True w e w'] show ?thesis by simp
qed

lemma TestFileGenerator_returns:
  "TestFileGenerator s w = Returns g w' \<Longrightarrow>
   g = \<lparr>output_dir = Path s\<rparr> \<and> is_dir (Path s) w'
   \<and> (w' = w \<or> (node_at (files w) (Path s) = None
           \<and> w' = w\<lparr>files := AList.update (Path s) Dir (files w)\<rparr>))"
proof -
  assume a: "TestFileGenerator s w = Returns g w'"
  then have "Path_mkdir (Path s) True w = Returns () w'" and "g = \<lparr>output_dir = Path s\<rparr>"
    by (cases "Path_mkdir (Path s) True w"; simp add: TestFileGenerator_def)+
  with Path_mkdir_returns [of "Path s" w "()" w'] show ?thesis by simp
qed

lemma main_eq:
  "main argv w =
     bind (TestFileGenerator (if length argv > 1 then argv ! 1 else ''test_files'') w)
       (\<lambda>generator w1. bind (generate_all generator w1) (\<lambda>success w2.
          if success then
            Returns () (w2\<lparr>stdout := stdout w2 @
              [CHR 0x0A # ''Test files generated successfully in: ''
                 @ absolute w2 (output_dir generator),
               ''You can now use these files to test the copyright notice extension!'']\<rparr>)
          else
            Raises (SystemExit 1)
              (w2\<lparr>stdout := stdout w2 @ [CHR 0x0A # ''Failed to generate test files.'']\<rparr>)))"
  by (simp add: main_def print_eq cong: if_cong)

subsection \<open>The directory listing\<close>

lemma glob_star_eq:
  "glob_star out w = (if is_dir out w then filter (child_of out) (map fst (files w)) else [])"
proof -
  have "child_of out = (\<lambda>q. q \<noteq> [] \<and> butlast q = out)"
    by (simp add: fun_eq_iff child_of_def)
  then show ?thesis
    by (simp only: glob_star_def)
qed

lemma walk_write_files:
  "length pre + length cs \<le> length out \<Longrightarrow> walk (write_files out cat fs) pre cs = walk fs pre cs"
proof (induction cat arbitrary: fs)
  case Nil
  show ?case by simp
next
  case (Cons x cat)
  from Cons.prems have "length pre + length cs < length (out @ [fst x])" by simp
  then have "walk (AList.update (out @ [fst x]) (File (snd x)) fs) pre cs = walk fs pre cs"
    by (rule walk_update)
  with Cons show ?case by simp
qed

lemma is_dir_write_files:
  assumes "files w' = write_files out cat (files w)"
  shows "is_dir out w' \<longleftrightarrow> is_dir out w"
proof -
  have "walk (write_files out cat (files w)) [] (butlast out) = walk (files w) [] (butlast out)"
    by (rule walk_write_files) simp
  moreover have "node_at (write_files out cat (files w)) out = node_at (files w) out"
    by (rule node_at_write_files_other) simp
  ultimately show ?thesis
    using assms by (simp add: is_dir_def)
qed

lemma child_of_target [simp]: "child_of out (out @ [n])"
  by (simp add: child_of_def)

lemma inj_target: "inj (\<lambda>n. out @ [n])"
  by (simp add: inj_def)

lemma card_targets: "distinct names \<Longrightarrow> card ((\<lambda>n. out @ [n]) ` set names) = length names"
  by (simp add: card_image inj_on_def distinct_card)

lemma paths_of_fixtures: "paths_of out fixtures = map (\<lambda>n. out @ [n]) fixed_filenames"
  by (simp add: paths_of_def fst_fixtures [symmetric])

lemma targets_fixtures:
  "(\<lambda>nc. out @ [fst nc]) ` set fixtures = (\<lambda>n. out @ [n]) ` set fixed_filenames"
  by (simp add: fst_fixtures [symmetric] image_image)

text \<open>The listing after all the files are written.\<close>

lemma set_glob_star_written:
  assumes "is_dir out w" and "files w' = write_files out fixtures (files w)"
  shows "set (glob_star out w') = set (glob_star out w) \<union> (\<lambda>n. out @ [n]) ` set fixed_filenames"
proof -
  from assms have d: "is_dir out w'" by (simp add: is_dir_write_files)
  have "set (map fst (files w')) = set (map fst (files w)) \<union> (\<lambda>n. out @ [n]) ` set fixed_filenames"
    using assms(2) by (simp only: keys_write_files targets_fixtures)
  then have "{q \<in> set (map fst (files w')). child_of out q}
      = {q \<in> set (map fst (files w)). child_of out q} \<union> (\<lambda>n. out @ [n]) ` set fixed_filenames"
    by auto
  with d assms(1) show ?thesis
    by (simp only: glob_star_eq if_True set_filter)
qed

lemma length_glob_star_written:
  assumes "is_dir out w" and "files w' = write_files out fixtures (files w)"
  shows "length (glob_star out w')
     = length (glob_star out w) + card ((\<lambda>n. out @ [n]) ` set fixed_filenames - set (map fst (files w)))"
proof -
  from assms have d: "is_dir out w'" by (simp add: is_dir_write_files)
  have "length (filter (child_of out) (map fst (write_files out fixtures (files w))))
     = length (filter (child_of out) (map fst (files w)))
       + card ((\<lambda>nc. out @ [fst nc]) ` set fixtures - set (map fst (files w)))"
    by (rule count_write_files) simp
  with d assms show ?thesis
    by (simp only: glob_star_eq if_True targets_fixtures)
qed

lemma glob_star_empty_targets:
  assumes "is_dir out w" and "glob_star out w = []"
  shows "(\<lambda>n. out @ [n]) ` set names - set (map fst (files w)) = (\<lambda>n. out @ [n]) ` set names"
proof -
  have "out @ [n] \<notin> set (map fst (files w))" for n
  proof
    assume "out @ [n] \<in> set (map fst (files w))"
    then have "out @ [n] \<in> set (filter (child_of out) (map fst (files w)))"
      by simp
    with assms show False
      by (simp only: glob_star_eq if_True) simp
  qed
  then show ?thesis by auto
qed

lemma length_other_entries:
  assumes "is_dir out w" and "distinct (map fst (files w))" and "distinct names"
  shows "length (glob_star out w) + card ((\<lambda>n. out @ [n]) ` set names - set (map fst (files w)))
     = length names + length (other_entries out names w)"
proof -
  let ?T = "(\<lambda>n. out @ [n]) ` set names"
  let ?K = "set (map fst (files w))"
  let ?G = "filter (child_of out) (map fst (files w))"
  from assms(2) have dG: "distinct ?G" by simp
  have G: "glob_star out w = ?G" using assms(1) by (simp only: glob_star_eq if_True)
  have fT: "finite ?T" by simp
  have split: "length ?G = length (filter (\<lambda>q. q \<in> ?T) ?G) + length (filter (\<lambda>q. q \<notin> ?T) ?G)"
    by (rule sum_length_filter_compl [symmetric])
  have inside: "length (filter (\<lambda>q. q \<in> ?T) ?G) = card (?T \<inter> ?K)"
  proof -
    have "distinct (filter (\<lambda>q. q \<in> ?T) ?G)" using dG by (rule distinct_filter)
    then have "length (filter (\<lambda>q. q \<in> ?T) ?G) = card (set (filter (\<lambda>q. q \<in> ?T) ?G))"
      by (simp only: distinct_card)
    moreover have "set (filter (\<lambda>q. q \<in> ?T) ?G) = ?T \<inter> ?K"
      by auto
    ultimately show ?thesis by simp
  qed
  have parts: "card (?T \<inter> ?K) + card (?T - ?K) = card ?T"
    using fT by (rule card_Int_Diff [symmetric])
  have all: "card ?T = length names"
    using assms(3) by (rule card_targets)
  have other: "length (other_entries out names w) = length (filter (\<lambda>q. q \<notin> ?T) ?G)"
    by (simp only: other_entries_def G set_map)
  from split inside parts all other
  have "length ?G + card (?T - ?K) = length names + length (other_entries out names w)"
    by linarith
  then show ?thesis
    by (simp only: G)
qed

subsection \<open>What a run leaves as it was\<close>

lemma can_write_cong:
  "files w = files v \<Longrightarrow> denied w = denied v \<Longrightarrow> can_write w p = can_write v p"
  by (simp add: can_write_iff)

lemma final_open_write_cannot:
  "\<not> can_write w p \<Longrightarrow> final (open_write p c w) = w"
  using open_write_cannot [of w p c] by auto

lemma can_write_final_write_fixtures:
  "length q = Suc (length out) \<Longrightarrow>
   can_write (final (write_fixtures out cat w)) q = can_write w q"
proof (induction cat arbitrary: w)
  case Nil
  show ?case by simp
next
  case (Cons nc cat)
  show ?case
  proof (cases "can_write w (out @ [fst nc])")
    case True
    with Cons show ?thesis
      by (simp add: write_fixtures_Cons can_write_wrote)
  next
    case False
    then show ?thesis
      by (simp add: write_fixtures_Cons final_open_write_cannot)
  qed
qed

lemma can_write_after_writes:
  assumes "files w' = write_files out (completed out cat w) (files w)"
    and "denied w' = denied w"
  shows "can_write w' (out @ [n]) = can_write w (out @ [n])"
proof -
  have "can_write w' (out @ [n]) = can_write (final (write_fixtures out cat w)) (out @ [n])"
    using assms final_write_fixtures [of out cat w] by (intro can_write_cong) simp_all
  then show ?thesis
    by (simp add: can_write_final_write_fixtures)
qed

lemma completed_after_writes:
  assumes "files w' = write_files out (completed out cat w) (files w)"
    and "denied w' = denied w"
  shows "completed out cat' w' = completed out cat' w"
  unfolding completed_def
  by (rule takeWhile_cong) (simp_all add: can_write_after_writes [OF assms])

lemma set_completed: "set (completed out cat w) \<subseteq> set cat"
  by (auto simp add: completed_def dest: set_takeWhileD)

lemma distinct_completed:
  "distinct (map fst cat) \<Longrightarrow> distinct (map fst (completed out cat w))"
proof -
  assume d: "distinct (map fst cat)"
  have "cat = completed out cat w @ dropWhile (\<lambda>nc. can_write w (out @ [fst nc])) cat"
    by (simp add: completed_def)
  then have "map fst cat = map fst (completed out cat w)
      @ map fst (dropWhile (\<lambda>nc. can_write w (out @ [fst nc])) cat)"
    by (metis map_append)
  with d show ?thesis
    by (metis distinct_append)
qed

lemma distinct_paths_of:
  "distinct (map fst cat) \<Longrightarrow> distinct (paths_of out cat)"
proof -
  assume "distinct (map fst cat)"
  then have "distinct (map (\<lambda>n. out @ [n]) (map fst cat))"
    by (simp add: distinct_map inj_on_def)
  then show ?thesis
    by (simp add: paths_of_def comp_def)
qed

lemma set_paths_of_completed:
  "set (paths_of out (completed out fixtures w)) \<subseteq> (\<lambda>n. out @ [n]) ` set fixed_filenames"
proof
  fix p
  assume "p \<in> set (paths_of out (completed out fixtures w))"
  then obtain nc where "nc \<in> set (completed out fixtures w)" and p: "p = out @ [fst nc]"
    by (auto simp add: paths_of_def)
  then have "nc \<in> set fixtures"
    using set_completed by blast
  then have "fst nc \<in> set fixed_filenames"
    by (simp only: fst_fixtures [symmetric] set_map) simp
  with p show "p \<in> (\<lambda>n. out @ [n]) ` set fixed_filenames"
    by simp
qed

lemma node_at_update_exists:
  "node_at fs p \<noteq> None \<Longrightarrow> node_at (AList.update k v fs) p \<noteq> None"
  by (auto simp add: node_at_def update_conv' split: if_splits)

lemma node_at_write_files_exists:
  "node_at fs p \<noteq> None \<Longrightarrow> node_at (write_files out cat fs) p \<noteq> None"
proof (induction cat arbitrary: fs)
  case Nil
  then show ?case by simp
next
  case (Cons x cat)
  from Cons.prems have "node_at (AList.update (out @ [fst x]) (File (snd x)) fs) p \<noteq> None"
    by (rule node_at_update_exists)
  then have "node_at (write_files out cat (AList.update (out @ [fst x]) (File (snd x)) fs)) p \<noteq> None"
    by (rule Cons.IH)
  then show ?case by simp
qed

lemma glob_star_cong:
  "files w = files v \<Longrightarrow> glob_star out w = glob_star out v"
  by (simp add: glob_star_def is_dir_def)

subsection \<open>\<open>main\<close> after the constructor, and the literals\<close>

lemma main_after_constructor:
  assumes "TestFileGenerator (output_dir_argument argv) w0 = Returns g w"
    and "generate_all g w = Returns success w'"
  shows "main argv w0 =
     (if success then
        Returns () (w'\<lparr>stdout := stdout w' @
          [CHR 0x0A # ''Test files generated successfully in: '' @ absolute w' (output_dir g),
           ''You can now use these files to test the copyright notice extension!'']\<rparr>)
      else
        Raises (SystemExit 1)
          (w'\<lparr>stdout := stdout w' @ [CHR 0x0A # ''Failed to generate test files.'']\<rparr>))"
  using assms by (simp add: main_eq output_dir_argument_def)

lemma fixture_of_name:
  "n \<in> set fixed_filenames \<Longrightarrow> \<exists>c. (n, c) \<in> set fixtures"
proof -
  assume "n \<in> set fixed_filenames"
  then have "n \<in> fst ` set fixtures"
    by (simp only: fst_fixtures [symmetric] set_map)
  then show ?thesis by force
qed

lemma quiet_world_simps [simp]:
  "files (quiet_world fs) = fs"
  "denied (quiet_world fs) p = False"
  "stdout (quiet_world fs) = []"
  "written (quiet_world fs) = []"
  "ticks (quiet_world fs) = 0"
  by (simp_all add: quiet_world_def)

lemma str_nat_errno: "str_nat 21 = ''21'' \<and> str_nat 20 = ''20'' \<and> str_nat 17 = ''17''
    \<and> str_nat 13 = ''13'' \<and> str_nat 2 = ''2''"
  by code_simp

lemma json_dumps_settings: "json_dumps settings 4 = settings_text"
  by code_simp

lemma settings_roundtrip: "json_loads (json_dumps settings 4) = Some settings"
  by code_simp

section \<open>The properties\<close>



text \<open>
  C2, as the code has it. After a run that succeeds, the text of \<^verbatim>\<open>test_settings.json\<close> is
  read back by the JSON reader as a dictionary; its keys are exactly the seven names of
  the specification, each behind the prefix \<^verbatim>\<open>copyright-notice.\<close> that the source gives
  them, and the values under \<^verbatim>\<open>copyright-notice.includeTimestamp\<close> and
  \<^verbatim>\<open>copyright-notice.includeUpdateTime\<close> are both the boolean \<open>True\<close>.
\<close>

theorem settings_document_keys:
  assumes "generate_all g w = Returns True w'"
  shows "\<exists>kvs. read_json w' (output_dir g @ [''test_settings.json'']) = Some (JDict kvs)
     \<and> set (map fst kvs) =
         {''copyright-notice.fileExtensions'', ''copyright-notice.excludedFiles'',
          ''copyright-notice.template'', ''copyright-notice.includeTimestamp'',
          ''copyright-notice.timestampFormat'', ''copyright-notice.includeUpdateTime'',
          ''copyright-notice.updateTimeFormat''}
     \<and> map_of kvs ''copyright-notice.includeTimestamp'' = Some (JBool True)
     \<and> map_of kvs ''copyright-notice.includeUpdateTime'' = Some (JBool True)"
proof -
  let ?out = "output_dir g"
  from generate_all_files [of g w] assms
  have "\<forall>n \<in> set fixed_filenames. can_write w (?out @ [n])"
    and "files w' = write_files ?out (completed ?out fixtures w) (files w)"
    by auto
  then have fs: "files w' = write_files ?out fixtures (files w)"
    by (simp add: completed_fixtures_all)
  have "(''test_settings.json'', json_dumps settings 4) \<in> set fixtures"
    by (simp add: fixtures_def)
  with distinct_fixtures
  have "node_at (write_files ?out fixtures (files w)) (?out @ [''test_settings.json''])
      = Some (File (json_dumps settings 4))"
    by (rule node_at_write_files_in)
  with fs have "read_json w' (?out @ [''test_settings.json'']) = Some settings"
    by (simp add: read_json_def settings_roundtrip)
  then have "read_json w' (?out @ [''test_settings.json'']) = Some (JDict (items settings))"
    by (simp add: settings_def)
  moreover have "set (map fst (items settings)) =
         {''copyright-notice.fileExtensions'', ''copyright-notice.excludedFiles'',
          ''copyright-notice.template'', ''copyright-notice.includeTimestamp'',
          ''copyright-notice.timestampFormat'', ''copyright-notice.includeUpdateTime'',
          ''copyright-notice.updateTimeFormat''}"
    by (simp add: settings_def)
  moreover have "map_of (items settings) ''copyright-notice.includeTimestamp'' = Some (JBool True)"
    and "map_of (items settings) ''copyright-notice.includeUpdateTime'' = Some (JBool True)"
    by (simp_all add: settings_def)
  ultimately show ?thesis
    by blast
qed

theorem settings_document_keys_witness:
  "\<exists>w' kvs. generate_all \<lparr>output_dir = [''out'']\<rparr> (quiet_world [([''out''], Dir)]) = Returns True w'
     \<and> read_json w' [''out'', ''test_settings.json''] = Some (JDict kvs)
     \<and> map_of kvs ''copyright-notice.includeTimestamp'' = Some (JBool True)
     \<and> map_of kvs ''copyright-notice.includeUpdateTime'' = Some (JBool True)
     \<and> ''copyright-notice.fileExtensions'' \<in> set (map fst kvs)"
proof -
  let ?w = "quiet_world [([''out''], Dir)]"
  let ?g = "\<lparr>output_dir = [''out'']\<rparr>"
  have "\<forall>n \<in> set fixed_filenames. can_write ?w (output_dir ?g @ [n])"
    by (simp add: fixed_filenames_def can_write_iff node_at_def)
  then obtain w' where run: "generate_all ?g ?w = Returns True w'"
    using generate_all_success by blast
  from settings_document_keys [OF run]
  obtain kvs where "read_json w' (output_dir ?g @ [''test_settings.json'']) = Some (JDict kvs)"
    and "set (map fst kvs) =
         {''copyright-notice.fileExtensions'', ''copyright-notice.excludedFiles'',
          ''copyright-notice.template'', ''copyright-notice.includeTimestamp'',
          ''copyright-notice.timestampFormat'', ''copyright-notice.includeUpdateTime'',
          ''copyright-notice.updateTimeFormat''}"
    and "map_of kvs ''copyright-notice.includeTimestamp'' = Some (JBool True)"
    and "map_of kvs ''copyright-notice.includeUpdateTime'' = Some (JBool True)"
    by blast
  moreover from this(2) have "''copyright-notice.fileExtensions'' \<in> set (map fst kvs)"
    by (simp only: insertI1)
  ultimately have "read_json w' [''out'', ''test_settings.json''] = Some (JDict kvs)
     \<and> map_of kvs ''copyright-notice.includeTimestamp'' = Some (JBool True)
     \<and> map_of kvs ''copyright-notice.includeUpdateTime'' = Some (JBool True)
     \<and> ''copyright-notice.fileExtensions'' \<in> set (map fst kvs)"
    by simp
  with run show ?thesis
    by blast
qed

text \<open>
  C2, as the specification states it, fails: after the successful run on an empty
  directory \<^verbatim>\<open>out\<close>, the settings that are read back have no key \<^verbatim>\<open>fileExtensions\<close>, so the
  set of their keys is not the set of the seven unprefixed names.
\<close>

theorem settings_document_keys_counterexample:
  "generate_all \<lparr>output_dir = [''out'']\<rparr> (quiet_world [([''out''], Dir)])
     = Returns True (final (generate_all \<lparr>output_dir = [''out'']\<rparr> (quiet_world [([''out''], Dir)])))
   \<and> read_json (final (generate_all \<lparr>output_dir = [''out'']\<rparr> (quiet_world [([''out''], Dir)])))
        [''out'', ''test_settings.json''] = Some settings
   \<and> ''fileExtensions'' \<notin> set (map fst (items settings))
   \<and> set (map fst (items settings)) \<noteq>
        {''fileExtensions'', ''excludedFiles'', ''template'', ''includeTimestamp'',
         ''timestampFormat'', ''includeUpdateTime'', ''updateTimeFormat''}"
proof -
  let ?w = "quiet_world [([''out''], Dir)]"
  let ?g = "\<lparr>output_dir = [''out'']\<rparr>"
  have "\<forall>n \<in> set fixed_filenames. can_write ?w (output_dir ?g @ [n])"
    by (simp add: fixed_filenames_def can_write_iff node_at_def)
  then obtain w' where run: "generate_all ?g ?w = Returns True w'"
    and fs: "files w' = write_files (output_dir ?g) fixtures (files ?w)"
    using generate_all_success by blast
  have "(''test_settings.json'', json_dumps settings 4) \<in> set fixtures"
    by (simp add: fixtures_def)
  with distinct_fixtures
  have "node_at (write_files (output_dir ?g) fixtures (files ?w)) (output_dir ?g @ [''test_settings.json''])
      = Some (File (json_dumps settings 4))"
    by (rule node_at_write_files_in)
  with fs have read: "read_json w' [''out'', ''test_settings.json''] = Some settings"
    by (simp add: read_json_def settings_roundtrip)
  have absent: "''fileExtensions'' \<notin> set (map fst (items settings))"
    by (simp add: settings_def)
  then have "set (map fst (items settings)) \<noteq>
        {''fileExtensions'', ''excludedFiles'', ''template'', ''includeTimestamp'',
         ''timestampFormat'', ''includeUpdateTime'', ''updateTimeFormat''}"
    by blast
  with run read absent show ?thesis
    by simp
qed




text \<open>
  C4. After a run that succeeds, the file of every fixture holds exactly the literal of
  the source for that fixture, whatever it held before; for \<^verbatim>\<open>basic.py\<close> this is the text
  that the specification quotes.
\<close>

theorem fixtures_written_verbatim:
  assumes "generate_all g w = Returns True w'"
  shows "(\<forall>nc \<in> set fixtures. node_at (files w') (output_dir g @ [fst nc]) = Some (File (snd nc)))
     \<and> node_at (files w') (output_dir g @ [''basic.py''])
         = Some (File ''def hello():\<newline>    print('Hello, World!')\<newline>\<newline>if __name__ == '__main__':\<newline>    hello()\<newline>'')"
proof -
  let ?out = "output_dir g"
  from generate_all_files [of g w] assms
  have all: "\<forall>n \<in> set fixed_filenames. can_write w (?out @ [n])"
    and "files w' = write_files ?out (completed ?out fixtures w) (files w)"
    by auto
  then have fs: "files w' = write_files ?out fixtures (files w)"
    by (simp add: completed_fixtures_all)
  have each: "node_at (files w') (?out @ [n]) = Some (File c)" if "(n, c) \<in> set fixtures" for n c
    using node_at_write_files_in [OF distinct_fixtures that] fs by simp
  have "(''basic.py'', content_basic_py) \<in> set fixtures"
    by (simp add: fixtures_def)
  then have "node_at (files w') (?out @ [''basic.py'']) = Some (File content_basic_py)"
    by (rule each)
  with each show ?thesis
    by (auto simp add: content_basic_py_def)
qed

theorem fixtures_written_verbatim_witness:
  "\<exists>w'. generate_all \<lparr>output_dir = [''test_files'']\<rparr> (quiet_world [([''test_files''], Dir)])
         = Returns True w'
     \<and> node_at (files w') [''test_files'', ''basic.py'']
         = Some (File ''def hello():\<newline>    print('Hello, World!')\<newline>\<newline>if __name__ == '__main__':\<newline>    hello()\<newline>'')
     \<and> node_at (files w') [''test_files'', ''README.md''] = Some (File readme_content)"
proof -
  let ?w = "quiet_world [([''test_files''], Dir)]"
  let ?g = "\<lparr>output_dir = [''test_files'']\<rparr>"
  have "\<forall>n \<in> set fixed_filenames. can_write ?w (output_dir ?g @ [n])"
    by (simp add: fixed_filenames_def can_write_iff node_at_def)
  then obtain w' where run: "generate_all ?g ?w = Returns True w'"
    using generate_all_success by blast
  have "(''README.md'', readme_content) \<in> set fixtures"
    by (simp add: fixtures_def)
  with fixtures_written_verbatim [OF run]
  have "node_at (files w') [''test_files'', ''basic.py'']
         = Some (File ''def hello():\<newline>    print('Hello, World!')\<newline>\<newline>if __name__ == '__main__':\<newline>    hello()\<newline>'')"
    and "node_at (files w') [''test_files'', ''README.md''] = Some (File readme_content)"
    by fastforce+
  with run show ?thesis by blast
qed

text \<open>
  C5. Two runs of \<open>generate_all\<close>, one after the other, on the same directory: the second
  returns what the first returned and leaves the file system exactly as the first left it
  (the same entries with the same contents, so nothing is appended, duplicated or left
  over); the writes of each run are the same, each path is written once in a run, and all
  of them are among the nineteen names.
\<close>

theorem generate_all_twice:
  "\<exists>b w1 w2 ps. generate_all g w = Returns b w1
     \<and> generate_all g w1 = Returns b w2
     \<and> files w2 = files w1
     \<and> glob_star (output_dir g) w2 = glob_star (output_dir g) w1
     \<and> written w1 = written w @ ps
     \<and> written w2 = written w1 @ ps
     \<and> distinct ps
     \<and> set ps \<subseteq> (\<lambda>n. output_dir g @ [n]) ` set fixed_filenames"
proof -
  let ?out = "output_dir g"
  let ?C = "completed ?out fixtures w"
  from generate_all_files [of g w]
  obtain b w1 where run1: "generate_all g w = Returns b w1"
    and b: "b \<longleftrightarrow> (\<forall>n \<in> set fixed_filenames. can_write w (?out @ [n]))"
    and fs1: "files w1 = write_files ?out ?C (files w)"
    and wr1: "written w1 = written w @ paths_of ?out ?C"
    and dn1: "denied w1 = denied w"
    by blast
  have same: "completed ?out fixtures w1 = ?C"
    using fs1 dn1 by (rule completed_after_writes)
  from generate_all_files [of g w1]
  obtain b2 w2 where run2: "generate_all g w1 = Returns b2 w2"
    and b2: "b2 \<longleftrightarrow> (\<forall>n \<in> set fixed_filenames. can_write w1 (?out @ [n]))"
    and fs2: "files w2 = write_files ?out ?C (files w1)"
    and wr2: "written w2 = written w1 @ paths_of ?out ?C"
    unfolding same by blast
  from b b2 have "b2 = b"
    by (simp add: can_write_after_writes [OF fs1 dn1])
  have dC: "distinct (map fst ?C)"
    using distinct_fixtures by (rule distinct_completed)
  from fs1 fs2 have files: "files w2 = files w1"
    by (simp add: write_files_idem [OF dC])
  then have "glob_star ?out w2 = glob_star ?out w1"
    by (rule glob_star_cong)
  moreover have "distinct (paths_of ?out ?C)"
    using dC by (rule distinct_paths_of)
  moreover have "set (paths_of ?out ?C) \<subseteq> (\<lambda>n. ?out @ [n]) ` set fixed_filenames"
    by (rule set_paths_of_completed)
  ultimately show ?thesis
    using run1 run2 \<open>b2 = b\<close> files wr1 wr2 by blast
qed

theorem generate_all_twice_witness:
  "\<exists>b w1 w2. generate_all \<lparr>output_dir = [''out'']\<rparr> (quiet_world [([''out''], Dir)]) = Returns b w1
     \<and> generate_all \<lparr>output_dir = [''out'']\<rparr> w1 = Returns b w2
     \<and> files w2 = files w1
     \<and> glob_star [''out''] w2 = glob_star [''out''] w1"
  using generate_all_twice [of "\<lparr>output_dir = [''out'']\<rparr>" "quiet_world [([''out''], Dir)]"]
  by (simp only: generator.simps) blast

text \<open>
  C6. When one of the nineteen files cannot be written, so that its write raises: the
  call catches the exception, the last line of the log is the error line that ends with
  the message of this exception, and the call returns \<open>False\<close>; every file that was written
  before the failing one holds its literal; and a process whose constructor left this
  generator in this world exits with status 1.
\<close>

theorem generate_all_write_fails:
  assumes "\<not> (\<forall>n \<in> set fixed_filenames. can_write w (output_dir g @ [n]))"
  shows "\<exists>w' e nc rest t. generate_all g w = Returns False w'
     \<and> fixtures = completed (output_dir g) fixtures w @ nc # rest
     \<and> open_write (output_dir g @ [fst nc]) (snd nc) w = Raises e w
     \<and> stdout w' \<noteq> []
     \<and> last (stdout w') = ''['' @ t @ ''] ERROR: Failed to generate test files: '' @ str_exn e
     \<and> (\<forall>x \<in> set (completed (output_dir g) fixtures w).
           node_at (files w') (output_dir g @ [fst x]) = Some (File (snd x)))
     \<and> written w' = written w @ paths_of (output_dir g) (completed (output_dir g) fixtures w)
     \<and> (\<forall>argv w0. TestFileGenerator (output_dir_argument argv) w0 = Returns g w
           \<longrightarrow> exit_status (main argv w0) = 1)"
proof -
  let ?out = "output_dir g"
  let ?C = "completed ?out fixtures w"
  from generate_all_failure [OF assms]
  obtain w' e nc rest t where run: "generate_all g w = Returns False w'"
    and first: "fixtures = ?C @ nc # rest"
    and exn: "open_write (?out @ [fst nc]) (snd nc) w = Raises e w"
    and log: "stdout w' \<noteq> []"
       "last (stdout w') = ''['' @ t @ ''] ERROR: Failed to generate test files: '' @ str_exn e"
    by blast
  from generate_all_files [of g w] run
  have fs: "files w' = write_files ?out ?C (files w)"
    and wr: "written w' = written w @ paths_of ?out ?C"
    by auto
  have dC: "distinct (map fst ?C)"
    using distinct_fixtures by (rule distinct_completed)
  have kept: "node_at (files w') (?out @ [fst x]) = Some (File (snd x))" if "x \<in> set ?C" for x
  proof -
    from that have "(fst x, snd x) \<in> set ?C" by simp
    with dC have "node_at (write_files ?out ?C (files w)) (?out @ [fst x]) = Some (File (snd x))"
      by (rule node_at_write_files_in)
    with fs show ?thesis by simp
  qed
  have status: "exit_status (main argv w0) = 1"
    if "TestFileGenerator (output_dir_argument argv) w0 = Returns g w" for argv w0
    using main_after_constructor [OF that run] by simp
  from run first exn log kept wr status show ?thesis
    by blast
qed

theorem generate_all_write_fails_witness:
  "\<not> can_write (quiet_world [([''out''], Dir), ([''out'', ''basic.ts''], Dir)]) [''out'', ''basic.ts'']
   \<and> (\<exists>w' t. generate_all \<lparr>output_dir = [''out'']\<rparr>
           (quiet_world [([''out''], Dir), ([''out'', ''basic.ts''], Dir)]) = Returns False w'
       \<and> last (stdout w') = ''['' @ t @ ''] ERROR: Failed to generate test files: ''
             @ ''[Errno 21] Is a directory: '' @ [CHR 0x27] @ ''out/basic.ts'' @ [CHR 0x27]
       \<and> node_at (files w') [''out'', ''basic.js''] = Some (File content_basic_js)
       \<and> node_at (files w') [''out'', ''different_copyright.js'']
            = Some (File content_different_copyright_js)
       \<and> written w' = [[''out'', ''basic.js''], [''out'', ''with_copyright.js''],
                        [''out'', ''different_copyright.js'']])
   \<and> exit_status (main [''gen_test_files.py'', ''out'']
         (quiet_world [([''out''], Dir), ([''out'', ''basic.ts''], Dir)])) = 1"
proof -
  let ?w = "quiet_world [([''out''], Dir), ([''out'', ''basic.ts''], Dir)]"
  let ?g = "\<lparr>output_dir = [''out'']\<rparr>"
  have n: "\<not> can_write ?w [''out'', ''basic.ts'']"
    by (simp add: can_write_iff node_at_def)
  have "''basic.ts'' \<in> set fixed_filenames"
    by (simp add: fixed_filenames_def)
  with n have a: "\<not> (\<forall>n \<in> set fixed_filenames. can_write ?w (output_dir ?g @ [n]))"
    by force
  have C: "completed (output_dir ?g) fixtures ?w
      = [(''basic.js'', content_basic_js), (''with_copyright.js'', content_with_copyright_js),
         (''different_copyright.js'', content_different_copyright_js)]"
    by (simp add: completed_def fixtures_def can_write_iff node_at_def)
  have d: "is_dir [''out''] ?w"
    by (simp add: is_dir_def node_at_def)
  have t: "TestFileGenerator (output_dir_argument [''gen_test_files.py'', ''out'']) ?w = Returns ?g ?w"
    using d by (simp add: TestFileGenerator_def output_dir_argument_def Path_def Path_mkdir_present Let_def)
  from generate_all_write_fails [OF a]
  obtain w' e nc rest t where run: "generate_all ?g ?w = Returns False w'"
    and first: "fixtures = completed (output_dir ?g) fixtures ?w @ nc # rest"
    and exn: "open_write (output_dir ?g @ [fst nc]) (snd nc) ?w = Raises e ?w"
    and log: "last (stdout w') = ''['' @ t @ ''] ERROR: Failed to generate test files: '' @ str_exn e"
    and kept: "\<forall>x \<in> set (completed (output_dir ?g) fixtures ?w).
           node_at (files w') (output_dir ?g @ [fst x]) = Some (File (snd x))"
    and wr: "written w' = written ?w @ paths_of (output_dir ?g) (completed (output_dir ?g) fixtures ?w)"
    and status: "\<forall>argv w0. TestFileGenerator (output_dir_argument argv) w0 = Returns ?g ?w
           \<longrightarrow> exit_status (main argv w0) = 1"
    by blast
  from first have "nc = (''basic.ts'', content_basic_ts)"
    unfolding C by (simp add: fixtures_def)
  with exn have "e = OSError EISDIR [''out'', ''basic.ts'']"
    by (simp add: open_write_def node_at_def)
  with log have l: "last (stdout w') = ''['' @ t @ ''] ERROR: Failed to generate test files: ''
             @ ''[Errno 21] Is a directory: '' @ [CHR 0x27] @ ''out/basic.ts'' @ [CHR 0x27]"
    by (simp add: str_nat_errno str_path_def)
  from kept have "node_at (files w') [''out'', ''basic.js''] = Some (File content_basic_js)"
    and "node_at (files w') [''out'', ''different_copyright.js'']
            = Some (File content_different_copyright_js)"
    unfolding C by simp_all
  moreover from wr have "written w' = [[''out'', ''basic.js''], [''out'', ''with_copyright.js''],
                        [''out'', ''different_copyright.js'']]"
    unfolding C by (simp add: paths_of_def)
  moreover from status t have "exit_status (main [''gen_test_files.py'', ''out''] ?w) = 1"
    by blast
  ultimately show ?thesis
    using n run l by blast
qed










end
